theory Spec2Isabelle
  imports Main
begin

section \<open>The Airbyte Docker runner (server/airbyte/runner.go)\<close>

text \<open>
  A shallow embedding of \<^verbatim>\<open>Runner\<close> and its operations. A Go function that mutates the
  runner takes the runner and returns the new one; what it does to the outside world is
  returned as a list of events, in the order the statements run; a Go panic is the
  outcome \<open>Panic\<close>. What the collaborators answer (the image registry, the file system,
  the docker process, the parsers of the package, the timer) is read from two records:
  \<open>Env\<close> for the configuration and constants that live outside this file, \<open>World\<close> for
  the answers given during one operation.
\<close>

subsection \<open>Errors, outcomes, events\<close>

text \<open>
  \<^verbatim>\<open>runner.ErrNotReady\<close> and \<^verbatim>\<open>runner.ErrAirbyteAlreadyTerminated\<close> are two sentinel
  values that the code compares by identity. Every other error (\<^verbatim>\<open>errors.New\<close>,
  \<^verbatim>\<open>fmt.Errorf\<close>, an error of the operating system) is a value of its own that is none
  of the sentinels; it is modelled by its text.
\<close>

datatype error = ErrNotReady | ErrAirbyteAlreadyTerminated | ErrorString string

datatype 'a outcome = Ret 'a | Panic

datatype event =
    CmdStart string "string list"
  | DockerStop string
  | ProcessKill
  | EnsureDir string
  | WriteJSON string
  | RemoveAll string
  | CloseWithError string bool

subsection \<open>Data\<close>

record Cmd =
  Path :: string
  Args :: "string list"
  Process :: bool

text \<open>
  \<open>closed\<close> is the channel \<^verbatim>\<open>r.closed\<close>: \<open>True\<close> once \<^verbatim>\<open>close(r.closed)\<close> has run.
  \<open>command\<close> is the pointer \<^verbatim>\<open>r.command\<close>, \<open>None\<close> for nil. \<open>Process\<close> of a command
  says whether \<^verbatim>\<open>Start\<close> has set \<^verbatim>\<open>cmd.Process\<close>.
\<close>

record Runner =
  DockerImage :: string
  Version :: string
  "identifier" :: string
  closed :: bool
  command :: "Cmd option"

text \<open>
  Modelled from the spec: the row types of the package are not in this file. A row has a
  discriminator and, for a CONNECTION_STATUS row, a status and a message; for a CATALOG
  row the streams. The payloads are pointers in the code that reads them
  (\<^verbatim>\<open>parsedRow.ConnectionStatus.Status\<close>, \<^verbatim>\<open>parsedRow.Catalog\<close>), so each is an option.
\<close>

record StatusRow =
  Status :: string
  Message :: string

datatype CatalogRow = CatalogRow (Streams: "string list")

record Row =
  RowType :: string
  ConnectionStatus :: "StatusRow option"
  Catalog :: "CatalogRow option"

text \<open>
  The parser of Spec, Check and Discover is declared elsewhere in the package; these are
  the three fields this file sets and reads. \<open>parsedRow\<close> is \<open>None\<close> for a nil pointer.
\<close>

record synchronousParser =
  desiredRowType :: string
  "output" :: string
  parsedRow :: "Row option"

text \<open>
  The configuration and the constants the file reads from elsewhere: the singleton
  \<^verbatim>\<open>Instance\<close>, the constants of the packages \<^verbatim>\<open>airbyte\<close> and \<^verbatim>\<open>base\<close>, the texts of the
  two sentinel errors, and \<^verbatim>\<open>path.Join\<close> of the standard library.
\<close>

record Env =
  AddAirbytePrefix :: "string \<Rightarrow> string"
  IsImagePulled :: "string \<Rightarrow> string \<Rightarrow> bool"
  WorkspaceVolume :: string
  ConfigDir :: string
  BuildMsg :: "string \<Rightarrow> string \<Rightarrow> string \<Rightarrow> error \<Rightarrow> string"
  VolumeAlias :: string
  DockerCommand :: string
  SpecType :: string
  ConnectionStatusType :: string
  CatalogType :: string
  ConfigFileName :: string
  CatalogFileName :: string
  StateFileName :: string
  ErrNotReadyText :: string
  ErrAirbyteAlreadyTerminatedText :: string
  path_Join :: "string list \<Rightarrow> string"

text \<open>
  What the outside answers during one operation. \<open>'c\<close> is the type of the source
  configuration (\<^verbatim>\<open>interface{}\<close> in Go).
  \<^item> \<open>NewLettersNumbers\<close>: the two identifiers \<^verbatim>\<open>saveConfig\<close> draws;
  \<^item> \<open>LoggingEnsureDir\<close>, \<open>ParseJSONAsFile\<close>: the error of each call, if any;
  \<^item> \<open>fmt_v\<close>: the \<^verbatim>\<open>%v\<close> rendering of a configuration;
  \<^item> \<open>StartErr\<close>, \<open>WaitErr\<close>: the errors of \<^verbatim>\<open>r.command.Start()\<close> and \<^verbatim>\<open>r.command.Wait()\<close>;
  \<^item> \<open>TimerFires t\<close>: whether the ticker of period \<open>t\<close> fires before the run is over;
  \<^item> \<open>SyncParse\<close>: what \<^verbatim>\<open>synchronousParser.parse\<close> does to the parser on this run's
    standard output, and what it returns; \<open>AsyncParse\<close>: what
    \<^verbatim>\<open>asynchronousParser.parse\<close> returns; either may panic;
  \<^item> \<open>Stderr\<close>: what the process writes to its standard error;
  \<^item> \<open>Kill started\<close>: what \<^verbatim>\<open>r.command.Process.Kill()\<close> does when \<^verbatim>\<open>r.command\<close> is not
    nil and \<^verbatim>\<open>Process\<close> is set (\<open>started\<close>) or nil;
  \<^item> \<open>PanicValue\<close>: the \<^verbatim>\<open>%v\<close> rendering of a recovered panic.
\<close>

record 'c World =
  NewLettersNumbers :: "string \<times> string"
  LoggingEnsureDir :: "string \<Rightarrow> error option"
  ParseJSONAsFile :: "string \<Rightarrow> 'c \<Rightarrow> error option"
  fmt_v :: "'c \<Rightarrow> string"
  StartErr :: "error option"
  WaitErr :: "error option"
  TimerFires :: "nat \<Rightarrow> bool"
  SyncParse :: "synchronousParser \<Rightarrow> error option outcome \<times> synchronousParser"
  AsyncParse :: "error option outcome"
  Stderr :: string
  Kill :: "bool \<Rightarrow> error option outcome"
  PanicValue :: string

definition connectionStatusSucceed :: string where
  "connectionStatusSucceed = ''SUCCEEDED''"

definition connectionStatusFailed :: string where
  "connectionStatusFailed = ''FAILED''"

text \<open>\<^verbatim>\<open>time.Minute\<close> and \<^verbatim>\<open>time.Hour*24\<close>, in nanoseconds.\<close>

definition time_Minute :: nat where
  "time_Minute = 60 * 1000000000"

definition time_Hour :: nat where
  "time_Hour = 60 * time_Minute"

text \<open>\<^verbatim>\<open>err.Error()\<close>, which is also the \<^verbatim>\<open>%v\<close> rendering of an error.\<close>

fun Error :: "Env \<Rightarrow> error \<Rightarrow> string" where
  "Error env ErrNotReady = ErrNotReadyText env"
| "Error env ErrAirbyteAlreadyTerminated = ErrAirbyteAlreadyTerminatedText env"
| "Error env (ErrorString s) = s"

subsection \<open>NewRunner, Close, terminated\<close>

text \<open>\<open>uuid\<close> is what \<^verbatim>\<open>uuid.New()\<close> returns.\<close>

definition NewRunner :: "string \<Rightarrow> string \<Rightarrow> string \<Rightarrow> string \<Rightarrow> Runner" where
  "NewRunner uuid dockerImage imageVersion ident =
     \<lparr>DockerImage = dockerImage, Version = imageVersion,
      identifier = (if ident = '''' then dockerImage @ ''-'' @ imageVersion @ ''-'' @ uuid
                    else ident),
      closed = False, command = None\<rparr>"

definition terminated :: "Runner \<Rightarrow> bool" where
  "terminated r = closed r"

text \<open>
  \<^verbatim>\<open>Close\<close>: the guard, then \<^verbatim>\<open>close(r.closed)\<close>, then \<^verbatim>\<open>docker stop\<close> is started, then
  \<^verbatim>\<open>r.command.Process.Kill()\<close>. Reading \<^verbatim>\<open>r.command.Process\<close> when \<^verbatim>\<open>r.command\<close> is nil
  is a nil pointer dereference: the call panics, after the two statements before it.
\<close>

definition Close :: "'c World \<Rightarrow> Runner \<Rightarrow> error option outcome \<times> Runner \<times> event list" where
  "Close w r =
     (if terminated r then (Ret (Some ErrAirbyteAlreadyTerminated), r, [])
      else
        let r' = r\<lparr>closed := True\<rparr> in
        (case command r' of
           None \<Rightarrow> (Panic, r', [DockerStop (identifier r')])
         | Some c \<Rightarrow> (Kill w (Process c), r', [DockerStop (identifier r'), ProcessKill])))"

subsection \<open>run\<close>

text \<open>
  \<^verbatim>\<open>run\<close> with its goroutines put in one order: the watchdog (which closes the runner
  if the timer fires), the standard output handler, the wait for the process, and last
  the deferred \<^verbatim>\<open>r.Close()\<close>. The handler is a closure over a parser \<open>'p\<close> and the
  runner; it runs inside \<^verbatim>\<open>safego.Run\<close>, so a panic of the handler, like one of the
  watchdog, ends that goroutine and leaves \<^verbatim>\<open>parsingErr\<close> nil. The standard error
  handler copies \<open>Stderr\<close> to its writer; the copied text is the third component of the
  result. A panic of the deferred \<^verbatim>\<open>r.Close()\<close> is a panic of \<^verbatim>\<open>run\<close>.
\<close>

type_synonym 'p handler =
  "'p \<Rightarrow> Runner \<Rightarrow> error option outcome \<times> 'p \<times> Runner \<times> event list"

definition run ::
  "Env \<Rightarrow> 'c World \<Rightarrow> 'p handler \<Rightarrow> 'p \<Rightarrow> nat \<Rightarrow> string list \<Rightarrow> Runner
     \<Rightarrow> error option outcome \<times> 'p \<times> string \<times> Runner \<times> event list" where
  "run env w stdoutHandler p timeout args r =
     (if terminated r then (Ret (Some ErrAirbyteAlreadyTerminated), p, '''', r, [])
      else if \<not> IsImagePulled env (AddAirbytePrefix env (DockerImage r)) (Version r)
      then (Ret (Some ErrNotReady), p, '''', r, [])
      else
        let cmd = \<lparr>Path = DockerCommand env, Args = args, Process = False\<rparr>;
            r1 = r\<lparr>command := Some cmd\<rparr>;
            start = CmdStart (DockerCommand env) args
        in
        (case StartErr w of
           Some err \<Rightarrow>
             (case Close w r1 of
                (c, r2, ev) \<Rightarrow>
                  ((case c of Panic \<Rightarrow> Panic | Ret _ \<Rightarrow> Ret (Some err)),
                   p, '''', r2, start # ev))
         | None \<Rightarrow>
             let r2 = r1\<lparr>command := Some (cmd\<lparr>Process := True\<rparr>)\<rparr> in
             (case (if TimerFires w timeout then Close w r2 else (Ret None, r2, [])) of
                (_, r3, ev3) \<Rightarrow>
             (case stdoutHandler p r3 of
                (h, p', r4, ev4) \<Rightarrow>
             (case Close w r4 of
                (c, r5, ev5) \<Rightarrow>
                  let parsingErr = (case h of Ret e \<Rightarrow> e | Panic \<Rightarrow> None) in
                  ((case c of
                      Panic \<Rightarrow> Panic
                    | Ret _ \<Rightarrow>
                        (case WaitErr w of
                           Some err \<Rightarrow> Ret (Some err)
                         | None \<Rightarrow> Ret parsingErr)),
                   p', Stderr w, r5, start # ev3 @ ev4 @ ev5))))))"

text \<open>The handler of Spec, Check and Discover: \<^verbatim>\<open>resultParser.parse\<close>.\<close>

definition sync_handler :: "'c World \<Rightarrow> synchronousParser handler" where
  "sync_handler w p r = (case SyncParse w p of (e, p') \<Rightarrow> (e, p', r, []))"

subsection \<open>saveConfig\<close>

definition saveConfig ::
  "Env \<Rightarrow> 'c World \<Rightarrow> 'c \<Rightarrow> (error + string \<times> string) \<times> event list" where
  "saveConfig env w airbyteSourceConfig =
     (let dirName = fst (NewLettersNumbers w);
          fileName = snd (NewLettersNumbers w) @ ''.json'';
          absoluteDirPath = path_Join env [ConfigDir env, dirName]
      in
      (case LoggingEnsureDir w absoluteDirPath of
         Some err \<Rightarrow>
           (Inl (ErrorString (''Error creating airbyte generated config dir: '' @ Error env err)),
            [EnsureDir absoluteDirPath])
       | None \<Rightarrow>
           let absoluteFilePath = path_Join env [absoluteDirPath, fileName] in
           (case ParseJSONAsFile w absoluteFilePath airbyteSourceConfig of
              Some err \<Rightarrow>
                (Inl (ErrorString (''Error writing airbyte config ['' @ fmt_v w airbyteSourceConfig
                                     @ '']: '' @ Error env err)),
                 [EnsureDir absoluteDirPath, WriteJSON absoluteFilePath])
            | None \<Rightarrow>
                (Inr (absoluteDirPath, path_Join env [dirName, fileName]),
                 [EnsureDir absoluteDirPath, WriteJSON absoluteFilePath]))))"

subsection \<open>Spec, Check, Discover\<close>

definition image_ref :: "Env \<Rightarrow> Runner \<Rightarrow> string" where
  "image_ref env r = AddAirbytePrefix env (DockerImage r) @ '':'' @ Version r"

definition volume_ref :: "Env \<Rightarrow> string" where
  "volume_ref env = WorkspaceVolume env @ '':'' @ VolumeAlias env"

definition Spec_args :: "Env \<Rightarrow> Runner \<Rightarrow> string list" where
  "Spec_args env r =
     [''run'', ''--rm'', ''-i'', ''--name'', identifier r, image_ref env r, ''spec'']"

definition Spec ::
  "Env \<Rightarrow> 'c World \<Rightarrow> Runner \<Rightarrow> (Row option \<times> error option) outcome \<times> Runner \<times> event list" where
  "Spec env w r =
     (let resultParser = \<lparr>desiredRowType = SpecType env, output = '''', parsedRow = None\<rparr> in
      (case run env w (sync_handler w) resultParser time_Minute (Spec_args env r) r of
         (res, p, errWriter, r', ev) \<Rightarrow>
           ((case res of
               Panic \<Rightarrow> Panic
             | Ret (Some err) \<Rightarrow>
                 if err = ErrNotReady then Ret (None, Some err)
                 else Ret (None, Some (ErrorString
                        (BuildMsg env ''Error loading airbyte spec:'' (output p) errWriter err)))
             | Ret None \<Rightarrow> Ret (parsedRow p, None)),
            r', ev)))"

definition Check_args :: "Env \<Rightarrow> Runner \<Rightarrow> string \<Rightarrow> string list" where
  "Check_args env r relatedFilePath =
     [''run'', ''--rm'', ''-i'', ''--name'', identifier r, ''-v'', volume_ref env,
      image_ref env r, ''check'', ''--config'',
      path_Join env [VolumeAlias env, relatedFilePath]]"

text \<open>
  The switch on \<^verbatim>\<open>resultParser.parsedRow.ConnectionStatus.Status\<close>; reading through a nil
  pointer panics.
\<close>

definition check_status :: "synchronousParser \<Rightarrow> error option outcome" where
  "check_status p =
     (case parsedRow p of
        None \<Rightarrow> Panic
      | Some row \<Rightarrow>
          (case ConnectionStatus row of
             None \<Rightarrow> Panic
           | Some cs \<Rightarrow>
               if Status cs = connectionStatusSucceed then Ret None
               else if Status cs = connectionStatusFailed then Ret (Some (ErrorString (Message cs)))
               else Ret (Some (ErrorString
                      (''unknown airbyte connection status ['' @ Status cs @ '']: ''
                         @ Message cs)))))"

definition Check ::
  "Env \<Rightarrow> 'c World \<Rightarrow> 'c \<Rightarrow> Runner \<Rightarrow> error option outcome \<times> Runner \<times> event list" where
  "Check env w airbyteSourceConfig r =
     (let resultParser =
            \<lparr>desiredRowType = ConnectionStatusType env, output = '''', parsedRow = None\<rparr> in
      (case saveConfig env w airbyteSourceConfig of
         (Inl err, ev0) \<Rightarrow> (Ret (Some err), r, ev0)
       | (Inr (absoluteDir, relatedFilePath), ev0) \<Rightarrow>
           (case run env w (sync_handler w) resultParser time_Minute
                   (Check_args env r relatedFilePath) r of
              (res, p, errWriter, r', ev) \<Rightarrow>
                ((case res of
                    Panic \<Rightarrow> Panic
                  | Ret (Some err) \<Rightarrow>
                      if err = ErrNotReady then Ret (Some err)
                      else Ret (Some (ErrorString
                             (BuildMsg env ''Error executing airbyte check:'' (output p)
                                errWriter err)))
                  | Ret None \<Rightarrow> check_status p),
                 r', ev0 @ ev @ [RemoveAll absoluteDir]))))"

definition Discover_args :: "Env \<Rightarrow> Runner \<Rightarrow> string \<Rightarrow> string list" where
  "Discover_args env r relatedFilePath =
     [''run'', ''--rm'', ''-i'', ''--name'', identifier r, ''-v'', volume_ref env,
      image_ref env r, ''discover'', ''--config'',
      path_Join env [VolumeAlias env, relatedFilePath]]"

definition Discover ::
  "Env \<Rightarrow> 'c World \<Rightarrow> 'c \<Rightarrow> nat \<Rightarrow> Runner
     \<Rightarrow> (CatalogRow option \<times> error option) outcome \<times> Runner \<times> event list" where
  "Discover env w airbyteSourceConfig timeout r =
     (let resultParser = \<lparr>desiredRowType = CatalogType env, output = '''', parsedRow = None\<rparr> in
      (case saveConfig env w airbyteSourceConfig of
         (Inl err, ev0) \<Rightarrow> (Ret (None, Some err), r, ev0)
       | (Inr (absoluteDirPath, relatedFilePath), ev0) \<Rightarrow>
           (case run env w (sync_handler w) resultParser timeout
                   (Discover_args env r relatedFilePath) r of
              (res, p, errStrWriter, r', ev) \<Rightarrow>
                ((case res of
                    Panic \<Rightarrow> Panic
                  | Ret (Some err) \<Rightarrow>
                      if err = ErrNotReady then Ret (None, Some err)
                      else Ret (None, Some (ErrorString
                             (BuildMsg env ''Error loading airbyte catalog:'' (output p)
                                errStrWriter err)))
                  | Ret None \<Rightarrow>
                      (case parsedRow p of
                         None \<Rightarrow> Panic
                       | Some row \<Rightarrow> Ret (Catalog row, None))),
                 r', ev0 @ ev @ [RemoveAll absoluteDirPath]))))"

subsection \<open>Read\<close>

text \<open>
  The deferred function of the handler: it runs only when the handler panicked; it
  reports a fatal failure to the task closer and closes the runner. When this
  \<^verbatim>\<open>r.Close()\<close> panics, the handler panics; otherwise the handler returns nil.
\<close>

definition read_recover ::
  "'c World \<Rightarrow> Runner \<Rightarrow> error option outcome \<times> Runner \<times> event list" where
  "read_recover w r =
     (case Close w r of
        (c, r', ev) \<Rightarrow>
          ((case c of Panic \<Rightarrow> Panic | Ret _ \<Rightarrow> Ret None), r',
           CloseWithError (PanicValue w @ ''. Process will be killed'') True # ev))"

text \<open>
  \<^verbatim>\<open>stdoutHandler\<close> of Read. The data consumer, the stream representations and the task
  logger are read by \<^verbatim>\<open>asyncParser.parse\<close> alone, whose result is \<open>AsyncParse\<close>.
\<close>

definition read_handler :: "Env \<Rightarrow> 'c World \<Rightarrow> unit handler" where
  "read_handler env w p r =
     (case AsyncParse w of
        Panic \<Rightarrow> (case read_recover w r of (h, r', ev) \<Rightarrow> (h, p, r', ev))
      | Ret None \<Rightarrow> (Ret None, p, r, [])
      | Ret (Some err) \<Rightarrow>
          (case Close w r of
             (c, r1, ev1) \<Rightarrow>
               let ev = CloseWithError
                          (''Process error: '' @ Error env err @ ''. Process will be killed'')
                          False # ev1
               in
               (case c of
                  Ret _ \<Rightarrow> (Ret (Some err), p, r1, ev)
                | Panic \<Rightarrow>
                    (case read_recover w r1 of (h, r2, ev2) \<Rightarrow> (h, p, r2, ev @ ev2)))))"

text \<open>\<open>taskID\<close> is what \<^verbatim>\<open>taskCloser.TaskID()\<close> returns.\<close>

definition Read_args :: "Env \<Rightarrow> Runner \<Rightarrow> string \<Rightarrow> string \<Rightarrow> string \<Rightarrow> string list" where
  "Read_args env r taskID sourceID statePath =
     (let args = [''run'', ''--rm'', ''-i'', ''--name'', taskID, ''-v'', volume_ref env,
                  image_ref env r, ''read'',
                  ''--config'',
                  path_Join env [VolumeAlias env, sourceID, DockerImage r, ConfigFileName env],
                  ''--catalog'',
                  path_Join env [VolumeAlias env, sourceID, DockerImage r, CatalogFileName env]]
      in
      if statePath \<noteq> ''''
      then args @ [''--state'',
                   path_Join env [VolumeAlias env, sourceID, DockerImage r, StateFileName env]]
      else args)"

definition Read ::
  "Env \<Rightarrow> 'c World \<Rightarrow> string \<Rightarrow> string \<Rightarrow> string \<Rightarrow> Runner
     \<Rightarrow> error option outcome \<times> Runner \<times> event list" where
  "Read env w taskID sourceID statePath r =
     (case run env w (read_handler env w) () (time_Hour * 24)
             (Read_args env r taskID sourceID statePath) r of
        (res, _, _, r', ev) \<Rightarrow> (res, r', ev))"

subsection \<open>Operations in sequence\<close>

text \<open>
  The five operations a caller has, each with the arguments it takes, and the error it
  returns. A caller may go on after a panic it recovered from.
\<close>

datatype 'c Op =
    OpSpec
  | OpCheck 'c
  | OpDiscover 'c nat
  | OpRead string string string
  | OpClose

fun err_of :: "('a \<times> error option) outcome \<Rightarrow> error option outcome" where
  "err_of Panic = Panic"
| "err_of (Ret (_, e)) = Ret e"

fun exec_op ::
  "Env \<Rightarrow> 'c World \<Rightarrow> 'c Op \<Rightarrow> Runner \<Rightarrow> error option outcome \<times> Runner \<times> event list" where
  "exec_op env w OpSpec r = (case Spec env w r of (x, r', ev) \<Rightarrow> (err_of x, r', ev))"
| "exec_op env w (OpCheck cfg) r = Check env w cfg r"
| "exec_op env w (OpDiscover cfg timeout) r =
     (case Discover env w cfg timeout r of (x, r', ev) \<Rightarrow> (err_of x, r', ev))"
| "exec_op env w (OpRead taskID sourceID statePath) r = Read env w taskID sourceID statePath r"
| "exec_op env w OpClose r = Close w r"

fun exec_ops :: "Env \<Rightarrow> ('c World \<times> 'c Op) list \<Rightarrow> Runner \<Rightarrow> Runner \<times> event list" where
  "exec_ops env [] r = (r, [])"
| "exec_ops env ((w, op) # rest) r =
     (case exec_op env w op r of
        (_, r', ev) \<Rightarrow> (case exec_ops env rest r' of (r'', ev') \<Rightarrow> (r'', ev @ ev')))"

text \<open>
  The events that start the connector process, and those that make up the termination
  action (the container stop and the kill of the process handle).
\<close>

fun is_spawn :: "event \<Rightarrow> bool" where
  "is_spawn (CmdStart _ _) = True"
| "is_spawn _ = False"

fun is_termination :: "event \<Rightarrow> bool" where
  "is_termination (DockerStop _) = True"
| "is_termination ProcessKill = True"
| "is_termination _ = False"

definition spawns :: "event list \<Rightarrow> event list" where
  "spawns evs = filter is_spawn evs"

definition terminations :: "event list \<Rightarrow> event list" where
  "terminations evs = filter is_termination evs"

text \<open>An operation fails when it returns an error.\<close>

fun fails :: "error option outcome \<Rightarrow> bool" where
  "fails (Ret (Some _)) = True"
| "fails _ = False"

subsection \<open>Two goroutines in Close\<close>

text \<open>
  \<^verbatim>\<open>Close\<close> takes no lock. Its four statements are the steps of a goroutine: the guard
  \<^verbatim>\<open>r.terminated()\<close> (a receive with default on the channel), \<^verbatim>\<open>close(r.closed)\<close>, the
  start of \<^verbatim>\<open>docker stop\<close>, and the kill. Closing a channel that is closed already is a
  run-time panic in Go. Two goroutines call \<^verbatim>\<open>Close\<close> on one runner whose command has
  started: the watchdog of \<^verbatim>\<open>run\<close>, when the ticker fires, and the caller. A schedule says
  which of the two takes the next step; \<open>killErr\<close> is what the kill returns.
\<close>

datatype origin = Watchdog | Caller

datatype pc = AtGuard | AtCloseChan | AtDockerStop | AtKill | Returned "error option" | Panicked

record race =
  chan_closed :: bool
  pc_watchdog :: pc
  pc_caller :: pc
  done_events :: "(origin \<times> event) list"

definition pc_of :: "origin \<Rightarrow> race \<Rightarrow> pc" where
  "pc_of g s = (case g of Watchdog \<Rightarrow> pc_watchdog s | Caller \<Rightarrow> pc_caller s)"

definition set_pc :: "origin \<Rightarrow> pc \<Rightarrow> race \<Rightarrow> race" where
  "set_pc g c s = (case g of Watchdog \<Rightarrow> s\<lparr>pc_watchdog := c\<rparr> | Caller \<Rightarrow> s\<lparr>pc_caller := c\<rparr>)"

definition close_step :: "string \<Rightarrow> error option \<Rightarrow> origin \<Rightarrow> race \<Rightarrow> race" where
  "close_step ident killErr g s =
     (case pc_of g s of
        AtGuard \<Rightarrow>
          if chan_closed s then set_pc g (Returned (Some ErrAirbyteAlreadyTerminated)) s
          else set_pc g AtCloseChan s
      | AtCloseChan \<Rightarrow>
          if chan_closed s then set_pc g Panicked s
          else set_pc g AtDockerStop (s\<lparr>chan_closed := True\<rparr>)
      | AtDockerStop \<Rightarrow>
          set_pc g AtKill (s\<lparr>done_events := done_events s @ [(g, DockerStop ident)]\<rparr>)
      | AtKill \<Rightarrow>
          set_pc g (Returned killErr) (s\<lparr>done_events := done_events s @ [(g, ProcessKill)]\<rparr>)
      | Returned e \<Rightarrow> s
      | Panicked \<Rightarrow> s)"

fun close_schedule :: "string \<Rightarrow> error option \<Rightarrow> origin list \<Rightarrow> race \<Rightarrow> race" where
  "close_schedule ident killErr [] s = s"
| "close_schedule ident killErr (g # gs) s =
     close_schedule ident killErr gs (close_step ident killErr g s)"

definition race_init :: race where
  "race_init = \<lparr>chan_closed = False, pc_watchdog = AtGuard, pc_caller = AtGuard,
                done_events = []\<rparr>"

subsection \<open>Reading what an operation gives back\<close>

text \<open>The three parts of what an operation gives back.\<close>

definition result_of :: "'a \<times> Runner \<times> event list \<Rightarrow> 'a" where
  "result_of x = fst x"

definition runner_of :: "'a \<times> Runner \<times> event list \<Rightarrow> Runner" where
  "runner_of x = fst (snd x)"

definition events_of :: "'a \<times> Runner \<times> event list \<Rightarrow> event list" where
  "events_of x = snd (snd x)"

text \<open>A handler is quiet when it starts no connector process.\<close>

definition quiet :: "'p handler \<Rightarrow> bool" where
  "quiet h = (\<forall>p r. spawns (snd (snd (snd (h p r)))) = [])"

text \<open>
  The parser of Check before the run, and the CONNECTION_STATUS payload it holds after
  it has read this run's standard output: the status Check observes.
\<close>

definition check_parser :: "Env \<Rightarrow> synchronousParser" where
  "check_parser env =
     \<lparr>desiredRowType = ConnectionStatusType env, output = '''', parsedRow = None\<rparr>"

definition observed_status :: "Env \<Rightarrow> 'c World \<Rightarrow> StatusRow option" where
  "observed_status env w =
     (case parsedRow (snd (SyncParse w (check_parser env))) of
        None \<Rightarrow> None
      | Some row \<Rightarrow> ConnectionStatus row)"

text \<open>
  The run of Check completes without error: the configuration is written, the runner
  is not closed, the image is pulled, the process starts and exits with status zero,
  the parser returns no error, and the deferred \<^verbatim>\<open>r.Close()\<close> does not panic (it does
  not reach the kill when the watchdog has closed the runner before).
\<close>

definition check_run_clean :: "Env \<Rightarrow> 'c World \<Rightarrow> 'c \<Rightarrow> Runner \<Rightarrow> bool" where
  "check_run_clean env w cfg r =
     (\<not> isl (fst (saveConfig env w cfg)) \<and> \<not> closed r
      \<and> IsImagePulled env (AddAirbytePrefix env (DockerImage r)) (Version r)
      \<and> StartErr w = None \<and> WaitErr w = None
      \<and> \<not> fails (fst (SyncParse w (check_parser env)))
      \<and> (if TimerFires w time_Minute then True else Kill w True \<noteq> Panic))"

text \<open>The directory and the file \<^verbatim>\<open>saveConfig\<close> writes to.\<close>

definition config_dir :: "Env \<Rightarrow> 'c World \<Rightarrow> string" where
  "config_dir env w = path_Join env [ConfigDir env, fst (NewLettersNumbers w)]"

definition config_file :: "Env \<Rightarrow> 'c World \<Rightarrow> string" where
  "config_file env w = path_Join env [config_dir env w, snd (NewLettersNumbers w) @ ''.json'']"

subsection \<open>Sample surroundings\<close>

text \<open>
  A configuration and a world on which the definitions can be run: the image
  \<open>airbyte/source-github:0.1.0\<close> is pulled, every call succeeds, the connector reports
  the status SUCCEEDED. \<open>sample_Join\<close> joins the non-empty elements with a slash, which
  is what \<^verbatim>\<open>path.Join\<close> returns on elements that are clean already.
\<close>

fun join_slash :: "string list \<Rightarrow> string" where
  "join_slash [] = ''''"
| "join_slash [x] = x"
| "join_slash (x # y # ys) = x @ ''/'' @ join_slash (y # ys)"

definition sample_Join :: "string list \<Rightarrow> string" where
  "sample_Join xs = join_slash (filter (\<lambda>x. x \<noteq> '''') xs)"

definition sample_BuildMsg :: "string \<Rightarrow> string \<Rightarrow> string \<Rightarrow> error \<Rightarrow> string" where
  "sample_BuildMsg prefix out errOut err =
     prefix @ '' '' @ out @ errOut @
     (case err of
        ErrNotReady \<Rightarrow> ''not ready''
      | ErrAirbyteAlreadyTerminated \<Rightarrow> ''already terminated''
      | ErrorString s \<Rightarrow> s)"

definition sample_Env :: Env where
  "sample_Env =
     \<lparr>AddAirbytePrefix = (\<lambda>s. ''airbyte/'' @ s),
      IsImagePulled = (\<lambda>image version. image = ''airbyte/source-github'' \<and> version = ''0.1.0''),
      WorkspaceVolume = ''jitsu_workspace'',
      ConfigDir = ''/data/airbyte'',
      BuildMsg = sample_BuildMsg,
      VolumeAlias = ''/tmp/airbyte'',
      DockerCommand = ''docker'',
      SpecType = ''SPEC'',
      ConnectionStatusType = ''CONNECTION_STATUS'',
      CatalogType = ''CATALOG'',
      ConfigFileName = ''config.json'',
      CatalogFileName = ''catalog.json'',
      StateFileName = ''state.json'',
      ErrNotReadyText = ''not ready'',
      ErrAirbyteAlreadyTerminatedText = ''already terminated'',
      path_Join = sample_Join\<rparr>"

definition sample_Row :: "string \<Rightarrow> string \<Rightarrow> Row" where
  "sample_Row status message =
     \<lparr>RowType = ''CONNECTION_STATUS'',
      ConnectionStatus = Some \<lparr>Status = status, Message = message\<rparr>,
      Catalog = None\<rparr>"

definition sample_World :: "string World" where
  "sample_World =
     \<lparr>NewLettersNumbers = (''d1'', ''f1''),
      LoggingEnsureDir = (\<lambda>dir. None),
      ParseJSONAsFile = (\<lambda>file cfg. None),
      fmt_v = (\<lambda>cfg. cfg),
      StartErr = None,
      WaitErr = None,
      TimerFires = (\<lambda>t. False),
      SyncParse = (\<lambda>p. (Ret None, p\<lparr>parsedRow := Some (sample_Row ''SUCCEEDED'' '''')\<rparr>)),
      AsyncParse = Ret None,
      Stderr = '''',
      Kill = (\<lambda>started. if started then Ret None else Panic),
      PanicValue = ''''\<rparr>"

definition sample_Runner :: Runner where
  "sample_Runner = NewRunner ''u1'' ''source-github'' ''0.1.0'' ''runner-1''"

text \<open>
  Variations of the sample: a connector that reports SUCCEEDED and then exits with a
  non-zero status; a file system that refuses to create the configuration directory;
  a runner for an image that is not pulled; the sample runner after its one Spec
  invocation.
\<close>

definition exit1_World :: "string World" where
  "exit1_World = sample_World\<lparr>WaitErr := Some (ErrorString ''exit status 1'')\<rparr>"

definition nodir_World :: "string World" where
  "nodir_World =
     sample_World\<lparr>LoggingEnsureDir := (\<lambda>dir. Some (ErrorString ''permission denied''))\<rparr>"

definition unpulled_Runner :: Runner where
  "unpulled_Runner = NewRunner ''u1'' ''source-mysql'' ''0.1.0'' ''runner-2''"

definition used_Runner :: Runner where
  "used_Runner = runner_of (Spec sample_Env sample_World sample_Runner)"

text \<open>The runner \<open>used_Runner\<close> after the caller has called Close on it.\<close>

definition closed_Runner :: Runner where
  "closed_Runner = runner_of (Close sample_World used_Runner)"

text \<open>A connector that reports the status FAILED with the message \<open>bad creds\<close>.\<close>

definition failed_World :: "string World" where
  "failed_World =
     sample_World\<lparr>SyncParse :=
       (\<lambda>p. (Ret None, p\<lparr>parsedRow := Some (sample_Row ''FAILED'' ''bad creds'')\<rparr>))\<rparr>"

section \<open>Facts about the definitions\<close>

lemma triple_parts [simp]:
  "result_of (a, r, ev) = a" "runner_of (a, r, ev) = r" "events_of (a, r, ev) = ev"
  by (simp_all add: result_of_def runner_of_def events_of_def)

lemma spawns_simps [simp]:
  "spawns [] = []"
  "spawns (e # es) = (if is_spawn e then e # spawns es else spawns es)"
  "spawns (xs @ ys) = spawns xs @ spawns ys"
  by (simp_all add: spawns_def)

lemma terminations_simps [simp]:
  "terminations [] = []"
  "terminations (e # es) = (if is_termination e then e # terminations es else terminations es)"
  "terminations (xs @ ys) = terminations xs @ terminations ys"
  by (simp_all add: terminations_def)

lemma Close_cases:
  "Close w r = (Ret (Some ErrAirbyteAlreadyTerminated), r, []) \<and> closed r
   \<or> (\<not> closed r \<and> command r = None
       \<and> Close w r = (Panic, r\<lparr>closed := True\<rparr>, [DockerStop (identifier r)]))
   \<or> (\<exists>c. \<not> closed r \<and> command r = Some c
       \<and> Close w r = (Kill w (Process c), r\<lparr>closed := True\<rparr>,
                        [DockerStop (identifier r), ProcessKill]))"
  by (cases "command r") (simp_all add: Close_def terminated_def)

lemma Close_closes: "closed (runner_of (Close w r))"
  using Close_cases [of w r] by auto

lemma Close_closed_runner:
  "closed r \<Longrightarrow> Close w r = (Ret (Some ErrAirbyteAlreadyTerminated), r, [])"
  by (simp add: Close_def terminated_def)

lemma Close_spawns: "spawns (events_of (Close w r)) = []"
  using Close_cases [of w r] by auto

lemma Close_terminations_closed: "closed r \<Longrightarrow> terminations (events_of (Close w r)) = []"
  by (simp add: Close_closed_runner)

lemma run_closed_runner:
  "closed r \<Longrightarrow>
   run env w h p t args r = (Ret (Some ErrAirbyteAlreadyTerminated), p, '''', r, [])"
  by (simp add: run_def terminated_def)

lemma run_not_pulled:
  "\<not> closed r \<Longrightarrow> \<not> IsImagePulled env (AddAirbytePrefix env (DockerImage r)) (Version r) \<Longrightarrow>
   run env w h p t args r = (Ret (Some ErrNotReady), p, '''', r, [])"
  by (simp add: run_def terminated_def)

lemma Close_result:
  "Close w r = (c, r', ev) \<Longrightarrow> closed r' \<and> spawns ev = []"
  using Close_closes [of w r] Close_spawns [of w r] by simp

lemma quietD: "quiet h \<Longrightarrow> h p r = (x, p', r', ev) \<Longrightarrow> spawns ev = []"
  unfolding quiet_def by (metis snd_conv)

lemma run_spawned:
  assumes "\<not> closed r"
    and "IsImagePulled env (AddAirbytePrefix env (DockerImage r)) (Version r)"
    and "quiet h"
    and "run env w h p t args r = (res, p', e, r', ev)"
  shows "closed r' \<and> spawns ev = [CmdStart (DockerCommand env) args]"
proof (cases "StartErr w")
  case (Some err)
  obtain c r2 ev2 where c: "Close w (r\<lparr>command := Some \<lparr>Path = DockerCommand env, Args = args, Process = False\<rparr>\<rparr>) = (c, r2, ev2)"
    by (metis prod_cases3)
  from assms Some c have "r' = r2" "ev = CmdStart (DockerCommand env) args # ev2"
    by (simp_all add: run_def terminated_def Let_def)
  with Close_result [OF c] show ?thesis by simp
next
  case None
  let ?r2 = "r\<lparr>command := Some \<lparr>Path = DockerCommand env, Args = args, Process = True\<rparr>\<rparr>"
  obtain x r3 ev3 where w3: "Close w ?r2 = (x, r3, ev3)"
    by (metis prod_cases3)
  let ?r3 = "if TimerFires w t then r3 else ?r2"
  let ?ev3 = "if TimerFires w t then ev3 else []"
  obtain hh pp r4 ev4 where h4: "h p ?r3 = (hh, pp, r4, ev4)"
    by (metis prod_cases4)
  obtain c r5 ev5 where c5: "Close w r4 = (c, r5, ev5)"
    by (metis prod_cases3)
  have s3: "spawns ?ev3 = []"
    using Close_result [OF w3] by simp
  from assms None w3 h4 c5 have "r' = r5" "ev = CmdStart (DockerCommand env) args # ?ev3 @ ev4 @ ev5"
    by (simp_all add: run_def terminated_def Let_def split: if_splits)
  with Close_result [OF c5] quietD [OF assms(3) h4] s3 show ?thesis by simp
qed

lemma sync_handler_quiet: "quiet (sync_handler w)"
  by (simp add: quiet_def sync_handler_def split: prod.splits)

lemma read_recover_result:
  "read_recover w r = (c, r', ev) \<Longrightarrow> closed r' \<and> spawns ev = []"
  using Close_closes [of w r] Close_spawns [of w r]
  by (auto simp: read_recover_def split: prod.splits)

lemma read_handler_quiet: "quiet (read_handler env w)"
  unfolding quiet_def
proof (intro allI)
  fix p r
  show "spawns (snd (snd (snd (read_handler env w p r)))) = []"
  proof (cases "AsyncParse w")
    case Panic
    then show ?thesis
      using read_recover_result [of w r]
      by (auto simp: read_handler_def split: prod.splits)
  next
    case (Ret e)
    show ?thesis
    proof (cases e)
      case None
      with Ret show ?thesis by (simp add: read_handler_def)
    next
      case (Some err)
      obtain c r1 ev1 where c: "Close w r = (c, r1, ev1)" by (metis prod_cases3)
      obtain h r2 ev2 where rr: "read_recover w r1 = (h, r2, ev2)" by (metis prod_cases3)
      from Ret Some c rr Close_result [OF c] read_recover_result [OF rr]
      show ?thesis
        by (cases c) (simp_all add: read_handler_def Let_def)
    qed
  qed
qed

lemma run_summary:
  assumes "quiet h" and "run env w h p t args r = (res, p', e, r', ev)"
  shows "(r' = r \<and> ev = [] \<and> p' = p \<and> e = '''' \<and>
          (closed r \<and> res = Ret (Some ErrAirbyteAlreadyTerminated)
           \<or> \<not> closed r \<and> res = Ret (Some ErrNotReady)
               \<and> \<not> IsImagePulled env (AddAirbytePrefix env (DockerImage r)) (Version r)))
         \<or> (\<not> closed r \<and> closed r'
             \<and> IsImagePulled env (AddAirbytePrefix env (DockerImage r)) (Version r)
             \<and> spawns ev = [CmdStart (DockerCommand env) args])"
proof (cases "closed r")
  case True
  with assms(2) show ?thesis by (simp add: run_closed_runner)
next
  case False
  show ?thesis
  proof (cases "IsImagePulled env (AddAirbytePrefix env (DockerImage r)) (Version r)")
    case True
    with False run_spawned [OF False True assms] show ?thesis by simp
  next
    case nope: False
    with False assms(2) show ?thesis by (simp add: run_not_pulled)
  qed
qed

lemma saveConfig_events:
  "spawns (snd (saveConfig env w cfg)) = [] \<and> terminations (snd (saveConfig env w cfg)) = []"
  by (simp add: saveConfig_def Let_def split: option.splits)

lemma Spec_summary:
  assumes "Spec env w r = (x, r', ev)"
  shows "(r' = r \<and> ev = [] \<and>
          (closed r \<and> x = Ret (None, Some (ErrorString
               (BuildMsg env ''Error loading airbyte spec:'' '''' '''' ErrAirbyteAlreadyTerminated)))
           \<or> \<not> closed r \<and> x = Ret (None, Some ErrNotReady)
               \<and> \<not> IsImagePulled env (AddAirbytePrefix env (DockerImage r)) (Version r)))
         \<or> (\<not> closed r \<and> closed r'
             \<and> IsImagePulled env (AddAirbytePrefix env (DockerImage r)) (Version r)
             \<and> spawns ev = [CmdStart (DockerCommand env) (Spec_args env r)])"
proof -
  let ?p = "\<lparr>desiredRowType = SpecType env, output = '''', parsedRow = None\<rparr>"
  obtain res p' e r1 ev1 where
    run: "run env w (sync_handler w) ?p time_Minute (Spec_args env r) r = (res, p', e, r1, ev1)"
    by (metis prod_cases5)
  from assms run have eq: "r' = r1" "ev = ev1"
    by (simp_all add: Spec_def)
  from assms run have x: "x = (case res of Panic \<Rightarrow> Panic
             | Ret (Some err) \<Rightarrow>
                 if err = ErrNotReady then Ret (None, Some err)
                 else Ret (None, Some (ErrorString
                        (BuildMsg env ''Error loading airbyte spec:'' (output p') e err)))
             | Ret None \<Rightarrow> Ret (parsedRow p', None))"
    by (simp add: Spec_def)
  from run_summary [OF sync_handler_quiet run] eq x show ?thesis
    by auto
qed

lemma saveConfig_cases:
  "(\<exists>err ev0. saveConfig env w cfg = (Inl err, ev0))
   \<or> (\<exists>d f ev0. saveConfig env w cfg = (Inr (d, f), ev0))"
  by (metis old.sum.exhaust surj_pair)

lemma Check_summary:
  assumes "Check env w cfg r = (x, r', ev)"
  shows "(\<exists>err. saveConfig env w cfg = (Inl err, ev) \<and> x = Ret (Some err) \<and> r' = r)
         \<or> (\<exists>d f ev0. saveConfig env w cfg = (Inr (d, f), ev0) \<and>
              ((r' = r \<and> ev = ev0 @ [RemoveAll d] \<and>
                (closed r \<and> x = Ret (Some (ErrorString
                     (BuildMsg env ''Error executing airbyte check:'' '''' ''''
                        ErrAirbyteAlreadyTerminated)))
                 \<or> \<not> closed r \<and> x = Ret (Some ErrNotReady)
                     \<and> \<not> IsImagePulled env (AddAirbytePrefix env (DockerImage r)) (Version r)))
               \<or> (\<not> closed r \<and> closed r'
                   \<and> IsImagePulled env (AddAirbytePrefix env (DockerImage r)) (Version r)
                   \<and> spawns ev = [CmdStart (DockerCommand env) (Check_args env r f)])))"
proof -
  from saveConfig_cases [of env w cfg] show ?thesis
  proof (elim disjE exE)
    fix err ev0
    assume sc: "saveConfig env w cfg = (Inl err, ev0)"
    with assms show ?thesis by (simp add: Check_def)
  next
    fix d f ev0
    assume sc: "saveConfig env w cfg = (Inr (d, f), ev0)"
    let ?p = "\<lparr>desiredRowType = ConnectionStatusType env, output = '''', parsedRow = None\<rparr>"
    obtain res p' e r1 ev1 where
      run: "run env w (sync_handler w) ?p time_Minute (Check_args env r f) r
              = (res, p', e, r1, ev1)"
      by (metis prod_cases5)
    from assms sc run have eq: "r' = r1" "ev = ev0 @ ev1 @ [RemoveAll d]"
      by (simp_all add: Check_def)
    from assms sc run have x: "x = (case res of
                    Panic \<Rightarrow> Panic
                  | Ret (Some err) \<Rightarrow>
                      if err = ErrNotReady then Ret (Some err)
                      else Ret (Some (ErrorString
                             (BuildMsg env ''Error executing airbyte check:'' (output p') e err)))
                  | Ret None \<Rightarrow> check_status p')"
      by (simp add: Check_def)
    have s0: "spawns ev0 = []"
      using saveConfig_events [of env w cfg] sc by simp
    from run_summary [OF sync_handler_quiet run] eq x s0 sc show ?thesis
      by auto
  qed
qed

lemma Discover_summary:
  assumes "Discover env w cfg t r = (x, r', ev)"
  shows "(\<exists>err. saveConfig env w cfg = (Inl err, ev) \<and> x = Ret (None, Some err) \<and> r' = r)
         \<or> (\<exists>d f ev0. saveConfig env w cfg = (Inr (d, f), ev0) \<and>
              ((r' = r \<and> ev = ev0 @ [RemoveAll d] \<and>
                (closed r \<and> x = Ret (None, Some (ErrorString
                     (BuildMsg env ''Error loading airbyte catalog:'' '''' ''''
                        ErrAirbyteAlreadyTerminated)))
                 \<or> \<not> closed r \<and> x = Ret (None, Some ErrNotReady)
                     \<and> \<not> IsImagePulled env (AddAirbytePrefix env (DockerImage r)) (Version r)))
               \<or> (\<not> closed r \<and> closed r'
                   \<and> IsImagePulled env (AddAirbytePrefix env (DockerImage r)) (Version r)
                   \<and> spawns ev = [CmdStart (DockerCommand env) (Discover_args env r f)])))"
proof -
  from saveConfig_cases [of env w cfg] show ?thesis
  proof (elim disjE exE)
    fix err ev0
    assume sc: "saveConfig env w cfg = (Inl err, ev0)"
    with assms show ?thesis by (simp add: Discover_def)
  next
    fix d f ev0
    assume sc: "saveConfig env w cfg = (Inr (d, f), ev0)"
    let ?p = "\<lparr>desiredRowType = CatalogType env, output = '''', parsedRow = None\<rparr>"
    obtain res p' e r1 ev1 where
      run: "run env w (sync_handler w) ?p t (Discover_args env r f) r = (res, p', e, r1, ev1)"
      by (metis prod_cases5)
    from assms sc run have eq: "r' = r1" "ev = ev0 @ ev1 @ [RemoveAll d]"
      by (simp_all add: Discover_def)
    from assms sc run have x: "x = (case res of
                    Panic \<Rightarrow> Panic
                  | Ret (Some err) \<Rightarrow>
                      if err = ErrNotReady then Ret (None, Some err)
                      else Ret (None, Some (ErrorString
                             (BuildMsg env ''Error loading airbyte catalog:'' (output p') e err)))
                  | Ret None \<Rightarrow>
                      (case parsedRow p' of
                         None \<Rightarrow> Panic
                       | Some row \<Rightarrow> Ret (Catalog row, None)))"
      by (simp add: Discover_def)
    have s0: "spawns ev0 = []"
      using saveConfig_events [of env w cfg] sc by simp
    from run_summary [OF sync_handler_quiet run] eq x s0 sc show ?thesis
      by auto
  qed
qed

lemma Read_summary:
  assumes "Read env w taskID sourceID statePath r = (x, r', ev)"
  shows "(r' = r \<and> ev = [] \<and>
          (closed r \<and> x = Ret (Some ErrAirbyteAlreadyTerminated)
           \<or> \<not> closed r \<and> x = Ret (Some ErrNotReady)
               \<and> \<not> IsImagePulled env (AddAirbytePrefix env (DockerImage r)) (Version r)))
         \<or> (\<not> closed r \<and> closed r'
             \<and> IsImagePulled env (AddAirbytePrefix env (DockerImage r)) (Version r)
             \<and> spawns ev = [CmdStart (DockerCommand env)
                               (Read_args env r taskID sourceID statePath)])"
proof -
  obtain res p' e r1 ev1 where
    run: "run env w (read_handler env w) () (time_Hour * 24)
            (Read_args env r taskID sourceID statePath) r = (res, p', e, r1, ev1)"
    by (metis prod_cases5)
  from assms run have eq: "x = res" "r' = r1" "ev = ev1"
    by (simp_all add: Read_def)
  from run_summary [OF read_handler_quiet run] eq show ?thesis
    by auto
qed

lemma exec_op_closed:
  assumes "closed r" and "exec_op env w op r = (x, r', ev)"
  shows "r' = r \<and> fails x \<and> spawns ev = [] \<and> terminations ev = []"
proof (cases op)
  case OpSpec
  obtain y where y: "Spec env w r = (y, r', ev)" "x = err_of y"
    using assms(2) OpSpec by (auto split: prod.splits)
  from Spec_summary [OF y(1)] assms(1) y(2) show ?thesis by auto
next
  case (OpCheck cfg)
  with assms(2) have c: "Check env w cfg r = (x, r', ev)" by simp
  from Check_summary [OF c] assms(1) saveConfig_events [of env w cfg] show ?thesis
    by auto
next
  case (OpDiscover cfg t)
  obtain y where y: "Discover env w cfg t r = (y, r', ev)" "x = err_of y"
    using assms(2) OpDiscover by (auto split: prod.splits)
  from Discover_summary [OF y(1)] assms(1) y(2) saveConfig_events [of env w cfg] show ?thesis
    by auto
next
  case (OpRead taskID sourceID statePath)
  with assms(2) have c: "Read env w taskID sourceID statePath r = (x, r', ev)" by simp
  from Read_summary [OF c] assms(1) show ?thesis by auto
next
  case OpClose
  with assms show ?thesis by (auto simp: Close_closed_runner)
qed

lemma exec_op_spawns:
  assumes "exec_op env w op r = (x, r', ev)"
  shows "spawns ev = [] \<or> (\<not> closed r \<and> closed r' \<and> length (spawns ev) = 1)"
proof (cases op)
  case OpSpec
  obtain y where y: "Spec env w r = (y, r', ev)"
    using assms OpSpec by (auto split: prod.splits)
  from Spec_summary [OF y] show ?thesis by auto
next
  case (OpCheck cfg)
  with assms have c: "Check env w cfg r = (x, r', ev)" by simp
  from Check_summary [OF c] saveConfig_events [of env w cfg] show ?thesis
    by auto
next
  case (OpDiscover cfg t)
  obtain y where y: "Discover env w cfg t r = (y, r', ev)"
    using assms OpDiscover by (auto split: prod.splits)
  from Discover_summary [OF y] saveConfig_events [of env w cfg] show ?thesis
    by auto
next
  case (OpRead taskID sourceID statePath)
  with assms have c: "Read env w taskID sourceID statePath r = (x, r', ev)" by simp
  from Read_summary [OF c] show ?thesis by auto
next
  case OpClose
  with assms Close_spawns [of w r] show ?thesis by simp
qed

lemma exec_ops_closed:
  "closed r \<Longrightarrow> exec_ops env steps r = (r', ev) \<Longrightarrow> r' = r \<and> spawns ev = [] \<and> terminations ev = []"
proof (induction steps arbitrary: r r' ev)
  case Nil
  then show ?case by simp
next
  case (Cons step steps)
  obtain w op where step: "step = (w, op)" by (cases step)
  obtain x r1 ev1 where one: "exec_op env w op r = (x, r1, ev1)" by (metis prod_cases3)
  obtain r2 ev2 where rest: "exec_ops env steps r1 = (r2, ev2)" by (cases "exec_ops env steps r1")
  from Cons.prems(2) step one rest have eq: "r' = r2" "ev = ev1 @ ev2" by simp_all
  from exec_op_closed [OF Cons.prems(1) one] have a: "r1 = r" "spawns ev1 = []" "terminations ev1 = []"
    by simp_all
  from Cons.IH [of r1 r2 ev2] a Cons.prems(1) rest eq show ?case by simp
qed

lemma exec_ops_spawns:
  "exec_ops env steps r = (r', ev) \<Longrightarrow> length (spawns ev) \<le> 1"
proof (induction steps arbitrary: r r' ev)
  case Nil
  then show ?case by simp
next
  case (Cons step steps)
  obtain w op where step: "step = (w, op)" by (cases step)
  obtain x r1 ev1 where one: "exec_op env w op r = (x, r1, ev1)" by (metis prod_cases3)
  obtain r2 ev2 where rest: "exec_ops env steps r1 = (r2, ev2)" by (cases "exec_ops env steps r1")
  from Cons.prems step one rest have eq: "ev = ev1 @ ev2" by simp
  from exec_op_spawns [OF one] show ?case
  proof
    assume "spawns ev1 = []"
    with Cons.IH [OF rest] eq show ?thesis by simp
  next
    assume a: "\<not> closed r \<and> closed r1 \<and> length (spawns ev1) = 1"
    with exec_ops_closed [OF _ rest] have "spawns ev2 = []" by simp
    with a eq show ?thesis by simp
  qed
qed

lemma not_fails_cases: "\<not> fails x \<Longrightarrow> x = Ret None \<or> x = Panic"
  by (cases x rule: fails.cases) simp_all

lemma run_returns_nil:
  assumes "run env w (sync_handler w) p t args r = (Ret None, p', e, r', ev)"
  shows "p' = snd (SyncParse w p)"
proof -
  have nc: "\<not> closed r"
    using assms by (auto simp: run_closed_runner)
  have pulled: "IsImagePulled env (AddAirbytePrefix env (DockerImage r)) (Version r)"
  proof (rule ccontr)
    assume "\<not> IsImagePulled env (AddAirbytePrefix env (DockerImage r)) (Version r)"
    with nc assms show False by (simp add: run_not_pulled)
  qed
  have started: "StartErr w = None"
  proof (cases "StartErr w")
    case (Some err)
    with assms nc pulled show ?thesis
      by (simp add: run_def terminated_def Let_def split: prod.splits outcome.splits)
  qed simp
  from assms nc pulled started show ?thesis
    by (simp add: run_def terminated_def Let_def sync_handler_def split: prod.splits if_splits)
qed

lemma run_clean:
  assumes "\<not> closed r"
    and "IsImagePulled env (AddAirbytePrefix env (DockerImage r)) (Version r)"
    and "StartErr w = None" and "WaitErr w = None"
    and "\<not> fails (fst (SyncParse w p))"
    and "if TimerFires w t then True else Kill w True \<noteq> Panic"
  shows "\<exists>r' ev. run env w (sync_handler w) p t args r
                    = (Ret None, snd (SyncParse w p), Stderr w, r', ev)"
proof -
  obtain x p' where sp: "SyncParse w p = (x, p')" by (cases "SyncParse w p")
  with assms(5) have x: "x = Ret None \<or> x = Panic" by (simp add: not_fails_cases)
  show ?thesis
  proof (cases "TimerFires w t")
    case True
    with assms sp x show ?thesis
      by (auto simp: run_def terminated_def Let_def sync_handler_def Close_def
          split: prod.splits outcome.splits)
  next
    case False
    with assms(6) obtain k where k: "Kill w True = Ret k" by (cases "Kill w True") auto
    from False assms sp x k show ?thesis
      by (auto simp: run_def terminated_def Let_def sync_handler_def Close_def
          split: prod.splits outcome.splits)
  qed
qed

lemma check_status_nil:
  "check_status p = Ret None \<Longrightarrow>
   \<exists>row cs. parsedRow p = Some row \<and> ConnectionStatus row = Some cs \<and> Status cs = ''SUCCEEDED''"
  by (auto simp: check_status_def connectionStatusSucceed_def
      split: option.splits if_splits)

lemma saveConfig_fails:
  assumes "LoggingEnsureDir w (config_dir env w) \<noteq> None
           \<or> ParseJSONAsFile w (config_file env w) cfg \<noteq> None"
  shows "fst (saveConfig env w cfg) =
           Inl (case LoggingEnsureDir w (config_dir env w) of
                  Some e \<Rightarrow> ErrorString
                     (''Error creating airbyte generated config dir: '' @ Error env e)
                | None \<Rightarrow> ErrorString
                     (''Error writing airbyte config ['' @ fmt_v w cfg @ '']: ''
                        @ Error env (the (ParseJSONAsFile w (config_file env w) cfg))))"
  using assms
  by (auto simp: saveConfig_def config_dir_def config_file_def Let_def split: option.splits)

text \<open>
  Past its two guards, \<^verbatim>\<open>run\<close> starts the command with the arguments it was given,
  before anything else happens; so does Read with the arguments it has built.
\<close>

lemma run_first_event:
  assumes "\<not> closed r"
    and "IsImagePulled env (AddAirbytePrefix env (DockerImage r)) (Version r)"
    and "run env w h p t args r = (res, p', e, r', ev)"
  shows "\<exists>rest. ev = CmdStart (DockerCommand env) args # rest"
  using assms
  by (auto simp: run_def terminated_def Let_def split: option.splits prod.splits if_splits)

lemma Read_spawns_its_args:
  assumes "\<not> closed r"
    and "IsImagePulled env (AddAirbytePrefix env (DockerImage r)) (Version r)"
  shows "\<exists>rest. events_of (Read env w taskID sourceID statePath r) =
           CmdStart (DockerCommand env) (Read_args env r taskID sourceID statePath) # rest
           \<and> spawns rest = []"
proof -
  obtain res p' e r1 ev where
    run: "run env w (read_handler env w) () (time_Hour * 24)
            (Read_args env r taskID sourceID statePath) r = (res, p', e, r1, ev)"
    by (metis prod_cases5)
  from run_first_event [OF assms run] obtain rest where
    ev: "ev = CmdStart (DockerCommand env) (Read_args env r taskID sourceID statePath) # rest"
    by blast
  from run_spawned [OF assms read_handler_quiet run] ev have "spawns rest = []"
    by simp
  with ev run show ?thesis by (simp add: Read_def)
qed

text \<open>
  The name each operation gives the container: the argument after \<open>--name\<close>.
\<close>

lemma container_names:
  "Spec_args env r ! 4 = identifier r"
  "Check_args env r relatedFilePath ! 4 = identifier r"
  "Discover_args env r relatedFilePath ! 4 = identifier r"
  "Read_args env r taskID sourceID statePath ! 4 = taskID"
  by (simp_all add: Spec_args_def Check_args_def Discover_args_def Read_args_def Let_def)

text \<open>
  Two calls of Close one after the other: the second finds the channel closed and
  returns the AlreadyTerminated condition.
\<close>

lemma close_schedule_in_turn:
  "pc_caller (close_schedule ident killErr
                [Watchdog, Watchdog, Watchdog, Watchdog, Caller] race_init)
     = Returned (Some ErrAirbyteAlreadyTerminated)"
  by (simp add: close_step_def pc_of_def set_pc_def race_init_def)

subsection \<open>The samples, field by field\<close>

lemma sample_World_sel:
  "NewLettersNumbers sample_World = (''d1'', ''f1'')"
  "LoggingEnsureDir sample_World = (\<lambda>dir. None)"
  "ParseJSONAsFile sample_World = (\<lambda>file cfg. None)"
  "fmt_v sample_World = (\<lambda>cfg. cfg)"
  "StartErr sample_World = None"
  "WaitErr sample_World = None"
  "TimerFires sample_World = (\<lambda>t. False)"
  "SyncParse sample_World =
     (\<lambda>p. (Ret None, p\<lparr>parsedRow := Some (sample_Row ''SUCCEEDED'' '''')\<rparr>))"
  "AsyncParse sample_World = Ret None"
  "Stderr sample_World = ''''"
  "Kill sample_World = (\<lambda>started. if started then Ret None else Panic)"
  "PanicValue sample_World = ''''"
  by (simp_all add: sample_World_def)

lemma sample_Env_sel:
  "AddAirbytePrefix sample_Env = (\<lambda>s. ''airbyte/'' @ s)"
  "IsImagePulled sample_Env =
     (\<lambda>image version. image = ''airbyte/source-github'' \<and> version = ''0.1.0'')"
  "WorkspaceVolume sample_Env = ''jitsu_workspace''"
  "ConfigDir sample_Env = ''/data/airbyte''"
  "BuildMsg sample_Env = sample_BuildMsg"
  "VolumeAlias sample_Env = ''/tmp/airbyte''"
  "DockerCommand sample_Env = ''docker''"
  "SpecType sample_Env = ''SPEC''"
  "ConnectionStatusType sample_Env = ''CONNECTION_STATUS''"
  "CatalogType sample_Env = ''CATALOG''"
  "ConfigFileName sample_Env = ''config.json''"
  "CatalogFileName sample_Env = ''catalog.json''"
  "StateFileName sample_Env = ''state.json''"
  "ErrNotReadyText sample_Env = ''not ready''"
  "ErrAirbyteAlreadyTerminatedText sample_Env = ''already terminated''"
  "path_Join sample_Env = sample_Join"
  by (simp_all add: sample_Env_def)

lemma sample_Runner_sel:
  "DockerImage sample_Runner = ''source-github''"
  "Version sample_Runner = ''0.1.0''"
  "identifier sample_Runner = ''runner-1''"
  "closed sample_Runner = False"
  "command sample_Runner = None"
  by (simp_all add: sample_Runner_def NewRunner_def)

lemma unpulled_Runner_sel:
  "DockerImage unpulled_Runner = ''source-mysql''"
  "Version unpulled_Runner = ''0.1.0''"
  "identifier unpulled_Runner = ''runner-2''"
  "closed unpulled_Runner = False"
  "command unpulled_Runner = None"
  by (simp_all add: unpulled_Runner_def NewRunner_def)

lemma failed_World_sel:
  "NewLettersNumbers failed_World = (''d1'', ''f1'')"
  "LoggingEnsureDir failed_World = (\<lambda>dir. None)"
  "ParseJSONAsFile failed_World = (\<lambda>file cfg. None)"
  "fmt_v failed_World = (\<lambda>cfg. cfg)"
  "StartErr failed_World = None"
  "WaitErr failed_World = None"
  "TimerFires failed_World = (\<lambda>t. False)"
  "SyncParse failed_World =
     (\<lambda>p. (Ret None, p\<lparr>parsedRow := Some (sample_Row ''FAILED'' ''bad creds'')\<rparr>))"
  "AsyncParse failed_World = Ret None"
  "Stderr failed_World = ''''"
  "Kill failed_World = (\<lambda>started. if started then Ret None else Panic)"
  "PanicValue failed_World = ''''"
  by (simp_all add: failed_World_def sample_World_def)

lemma exit1_World_sel:
  "NewLettersNumbers exit1_World = (''d1'', ''f1'')"
  "LoggingEnsureDir exit1_World = (\<lambda>dir. None)"
  "ParseJSONAsFile exit1_World = (\<lambda>file cfg. None)"
  "fmt_v exit1_World = (\<lambda>cfg. cfg)"
  "StartErr exit1_World = None"
  "WaitErr exit1_World = Some (ErrorString ''exit status 1'')"
  "TimerFires exit1_World = (\<lambda>t. False)"
  "SyncParse exit1_World =
     (\<lambda>p. (Ret None, p\<lparr>parsedRow := Some (sample_Row ''SUCCEEDED'' '''')\<rparr>))"
  "AsyncParse exit1_World = Ret None"
  "Stderr exit1_World = ''''"
  "Kill exit1_World = (\<lambda>started. if started then Ret None else Panic)"
  "PanicValue exit1_World = ''''"
  by (simp_all add: exit1_World_def sample_World_def)

lemma nodir_World_sel:
  "NewLettersNumbers nodir_World = (''d1'', ''f1'')"
  "LoggingEnsureDir nodir_World = (\<lambda>dir. Some (ErrorString ''permission denied''))"
  "ParseJSONAsFile nodir_World = (\<lambda>file cfg. None)"
  "fmt_v nodir_World = (\<lambda>cfg. cfg)"
  "StartErr nodir_World = None"
  "WaitErr nodir_World = None"
  "TimerFires nodir_World = (\<lambda>t. False)"
  "SyncParse nodir_World =
     (\<lambda>p. (Ret None, p\<lparr>parsedRow := Some (sample_Row ''SUCCEEDED'' '''')\<rparr>))"
  "AsyncParse nodir_World = Ret None"
  "Stderr nodir_World = ''''"
  "Kill nodir_World = (\<lambda>started. if started then Ret None else Panic)"
  "PanicValue nodir_World = ''''"
  by (simp_all add: nodir_World_def sample_World_def)

lemmas sample_sel = sample_World_sel sample_Env_sel sample_Runner_sel unpulled_Runner_sel

lemmas run_unfold = run_def Close_def terminated_def sync_handler_def image_ref_def volume_ref_def

lemma sample_saveConfig:
  "saveConfig sample_Env sample_World cfg =
     (Inr (''/data/airbyte/d1'', ''d1/f1.json''),
      [EnsureDir ''/data/airbyte/d1'', WriteJSON ''/data/airbyte/d1/f1.json''])"
  by (simp add: saveConfig_def sample_sel sample_Join_def Let_def)

lemma failed_saveConfig:
  "saveConfig sample_Env failed_World cfg =
     (Inr (''/data/airbyte/d1'', ''d1/f1.json''),
      [EnsureDir ''/data/airbyte/d1'', WriteJSON ''/data/airbyte/d1/f1.json''])"
  by (simp add: saveConfig_def failed_World_sel sample_Env_sel sample_Join_def Let_def)

lemma exit1_saveConfig:
  "saveConfig sample_Env exit1_World cfg =
     (Inr (''/data/airbyte/d1'', ''d1/f1.json''),
      [EnsureDir ''/data/airbyte/d1'', WriteJSON ''/data/airbyte/d1/f1.json''])"
  by (simp add: saveConfig_def exit1_World_sel sample_Env_sel sample_Join_def Let_def)

lemma nodir_saveConfig:
  "saveConfig sample_Env nodir_World cfg =
     (Inl (ErrorString ''Error creating airbyte generated config dir: permission denied''),
      [EnsureDir ''/data/airbyte/d1''])"
  by (simp add: saveConfig_def nodir_World_sel sample_Env_sel sample_Join_def Let_def)

lemma sample_Spec:
  "Spec sample_Env sample_World sample_Runner =
     (Ret (Some (sample_Row ''SUCCEEDED'' ''''), None),
      sample_Runner\<lparr>command := Some \<lparr>Path = ''docker'',
          Args = [''run'', ''--rm'', ''-i'', ''--name'', ''runner-1'',
                  ''airbyte/source-github:0.1.0'', ''spec''],
          Process = True\<rparr>, closed := True\<rparr>,
      [CmdStart ''docker'' [''run'', ''--rm'', ''-i'', ''--name'', ''runner-1'',
                            ''airbyte/source-github:0.1.0'', ''spec''],
       DockerStop ''runner-1'', ProcessKill])"
  by (simp add: Spec_def Spec_args_def image_ref_def run_def Close_def terminated_def
      sync_handler_def sample_sel)

lemma used_Runner_closed: "closed used_Runner"
  by (simp add: used_Runner_def sample_Spec)

lemma sample_Check:
  "Check sample_Env sample_World cfg sample_Runner =
     (Ret None,
      sample_Runner\<lparr>command := Some \<lparr>Path = ''docker'',
          Args = [''run'', ''--rm'', ''-i'', ''--name'', ''runner-1'', ''-v'',
                  ''jitsu_workspace:/tmp/airbyte'', ''airbyte/source-github:0.1.0'',
                  ''check'', ''--config'', ''/tmp/airbyte/d1/f1.json''],
          Process = True\<rparr>, closed := True\<rparr>,
      [EnsureDir ''/data/airbyte/d1'', WriteJSON ''/data/airbyte/d1/f1.json'',
       CmdStart ''docker''
         [''run'', ''--rm'', ''-i'', ''--name'', ''runner-1'', ''-v'',
          ''jitsu_workspace:/tmp/airbyte'', ''airbyte/source-github:0.1.0'',
          ''check'', ''--config'', ''/tmp/airbyte/d1/f1.json''],
       DockerStop ''runner-1'', ProcessKill, RemoveAll ''/data/airbyte/d1''])"
  by (simp add: Check_def Check_args_def run_unfold sample_sel sample_saveConfig sample_Join_def
      check_status_def sample_Row_def connectionStatusSucceed_def)

section \<open>Properties of the runner\<close>

text \<open>
  C1, as stated, fails: Spec on a runner on which Close has been called does not
  return the AlreadyTerminated condition; it returns a new error whose text is the
  diagnostic message built from it.
\<close>

theorem Spec_after_Close_counterexample:
  "result_of (Spec sample_Env sample_World closed_Runner) =
     Ret (None, Some (ErrorString ''Error loading airbyte spec: already terminated'')) \<and>
   result_of (Spec sample_Env sample_World closed_Runner)
     \<noteq> Ret (None, Some ErrAirbyteAlreadyTerminated)"
proof -
  have "closed closed_Runner"
    by (simp add: closed_Runner_def Close_closes)
  then show ?thesis
    by (simp add: Spec_def run_closed_runner sample_Env_sel sample_BuildMsg_def)
qed

text \<open>
  C1, amended. On a runner on which Close has been invoked, every operation starts no
  process, performs no termination action and leaves the runner as it is. Close and
  Read return the AlreadyTerminated condition itself. Spec, Check and Discover return a
  new error whose text is the diagnostic message built from the AlreadyTerminated
  condition with empty captured output; Check and Discover first write the
  configuration, return the error of that step when it fails, and otherwise remove the
  directory they wrote.
\<close>

theorem operations_after_Close:
  assumes "r = runner_of (Close w0 r0)"
  shows "Close w r = (Ret (Some ErrAirbyteAlreadyTerminated), r, []) \<and>
         Read env w taskID sourceID statePath r = (Ret (Some ErrAirbyteAlreadyTerminated), r, []) \<and>
         Spec env w r =
           (Ret (None, Some (ErrorString (BuildMsg env ''Error loading airbyte spec:'' '''' ''''
                   ErrAirbyteAlreadyTerminated))), r, []) \<and>
         Check env w cfg r =
           (case saveConfig env w cfg of
              (Inl err, ev0) \<Rightarrow> (Ret (Some err), r, ev0)
            | (Inr (d, f), ev0) \<Rightarrow>
                (Ret (Some (ErrorString (BuildMsg env ''Error executing airbyte check:'' '''' ''''
                   ErrAirbyteAlreadyTerminated))), r, ev0 @ [RemoveAll d])) \<and>
         Discover env w cfg t r =
           (case saveConfig env w cfg of
              (Inl err, ev0) \<Rightarrow> (Ret (None, Some err), r, ev0)
            | (Inr (d, f), ev0) \<Rightarrow>
                (Ret (None, Some (ErrorString (BuildMsg env ''Error loading airbyte catalog:''
                   '''' '''' ErrAirbyteAlreadyTerminated))), r, ev0 @ [RemoveAll d])) \<and>
         spawns (events_of (Check env w cfg r)) = [] \<and>
         terminations (events_of (Check env w cfg r)) = [] \<and>
         spawns (events_of (Discover env w cfg t r)) = [] \<and>
         terminations (events_of (Discover env w cfg t r)) = []"
proof -
  from assms have c: "closed r" by (simp add: Close_closes)
  have check: "Check env w cfg r =
           (case saveConfig env w cfg of
              (Inl err, ev0) \<Rightarrow> (Ret (Some err), r, ev0)
            | (Inr (d, f), ev0) \<Rightarrow>
                (Ret (Some (ErrorString (BuildMsg env ''Error executing airbyte check:'' '''' ''''
                   ErrAirbyteAlreadyTerminated))), r, ev0 @ [RemoveAll d]))"
    using c by (simp add: Check_def run_closed_runner split: prod.splits sum.splits)
  have discover: "Discover env w cfg t r =
           (case saveConfig env w cfg of
              (Inl err, ev0) \<Rightarrow> (Ret (None, Some err), r, ev0)
            | (Inr (d, f), ev0) \<Rightarrow>
                (Ret (None, Some (ErrorString (BuildMsg env ''Error loading airbyte catalog:''
                   '''' '''' ErrAirbyteAlreadyTerminated))), r, ev0 @ [RemoveAll d]))"
    using c by (simp add: Discover_def run_closed_runner split: prod.splits sum.splits)
  have ev: "spawns (events_of (Check env w cfg r)) = []"
       "terminations (events_of (Check env w cfg r)) = []"
       "spawns (events_of (Discover env w cfg t r)) = []"
       "terminations (events_of (Discover env w cfg t r)) = []"
    using saveConfig_events [of env w cfg]
    by (auto simp: check discover split: prod.splits sum.splits)
  have "Close w r = (Ret (Some ErrAirbyteAlreadyTerminated), r, [])"
    using c by (rule Close_closed_runner)
  moreover have "Read env w taskID sourceID statePath r
                   = (Ret (Some ErrAirbyteAlreadyTerminated), r, [])"
    using c by (simp add: Read_def run_closed_runner)
  moreover have "Spec env w r =
           (Ret (None, Some (ErrorString (BuildMsg env ''Error loading airbyte spec:'' '''' ''''
                   ErrAirbyteAlreadyTerminated))), r, [])"
    using c by (simp add: Spec_def run_closed_runner)
  ultimately show ?thesis using check discover ev by blast
qed

theorem operations_after_Close_witness:
  "closed_Runner = runner_of (Close sample_World used_Runner) \<and>
   (Close sample_World closed_Runner = (Ret (Some ErrAirbyteAlreadyTerminated), closed_Runner, []) \<and>
    Read sample_Env sample_World ''task-42'' ''src'' '''' closed_Runner
      = (Ret (Some ErrAirbyteAlreadyTerminated), closed_Runner, []) \<and>
    Spec sample_Env sample_World closed_Runner =
      (Ret (None, Some (ErrorString (BuildMsg sample_Env ''Error loading airbyte spec:'' '''' ''''
              ErrAirbyteAlreadyTerminated))), closed_Runner, []) \<and>
    Check sample_Env sample_World ''{}'' closed_Runner =
      (case saveConfig sample_Env sample_World ''{}'' of
         (Inl err, ev0) \<Rightarrow> (Ret (Some err), closed_Runner, ev0)
       | (Inr (d, f), ev0) \<Rightarrow>
           (Ret (Some (ErrorString (BuildMsg sample_Env ''Error executing airbyte check:'' ''''
              '''' ErrAirbyteAlreadyTerminated))), closed_Runner, ev0 @ [RemoveAll d])) \<and>
    Discover sample_Env sample_World ''{}'' time_Minute closed_Runner =
      (case saveConfig sample_Env sample_World ''{}'' of
         (Inl err, ev0) \<Rightarrow> (Ret (None, Some err), closed_Runner, ev0)
       | (Inr (d, f), ev0) \<Rightarrow>
           (Ret (None, Some (ErrorString (BuildMsg sample_Env ''Error loading airbyte catalog:''
              '''' '''' ErrAirbyteAlreadyTerminated))), closed_Runner, ev0 @ [RemoveAll d])) \<and>
    spawns (events_of (Check sample_Env sample_World ''{}'' closed_Runner)) = [] \<and>
    terminations (events_of (Check sample_Env sample_World ''{}'' closed_Runner)) = [] \<and>
    spawns (events_of (Discover sample_Env sample_World ''{}'' time_Minute closed_Runner)) = [] \<and>
    terminations (events_of (Discover sample_Env sample_World ''{}'' time_Minute closed_Runner))
      = [])"
proof
  show invoked: "closed_Runner = runner_of (Close sample_World used_Runner)"
    by (rule closed_Runner_def)
  show "Close sample_World closed_Runner = (Ret (Some ErrAirbyteAlreadyTerminated), closed_Runner, []) \<and>
    Read sample_Env sample_World ''task-42'' ''src'' '''' closed_Runner
      = (Ret (Some ErrAirbyteAlreadyTerminated), closed_Runner, []) \<and>
    Spec sample_Env sample_World closed_Runner =
      (Ret (None, Some (ErrorString (BuildMsg sample_Env ''Error loading airbyte spec:'' '''' ''''
              ErrAirbyteAlreadyTerminated))), closed_Runner, []) \<and>
    Check sample_Env sample_World ''{}'' closed_Runner =
      (case saveConfig sample_Env sample_World ''{}'' of
         (Inl err, ev0) \<Rightarrow> (Ret (Some err), closed_Runner, ev0)
       | (Inr (d, f), ev0) \<Rightarrow>
           (Ret (Some (ErrorString (BuildMsg sample_Env ''Error executing airbyte check:'' ''''
              '''' ErrAirbyteAlreadyTerminated))), closed_Runner, ev0 @ [RemoveAll d])) \<and>
    Discover sample_Env sample_World ''{}'' time_Minute closed_Runner =
      (case saveConfig sample_Env sample_World ''{}'' of
         (Inl err, ev0) \<Rightarrow> (Ret (None, Some err), closed_Runner, ev0)
       | (Inr (d, f), ev0) \<Rightarrow>
           (Ret (None, Some (ErrorString (BuildMsg sample_Env ''Error loading airbyte catalog:''
              '''' '''' ErrAirbyteAlreadyTerminated))), closed_Runner, ev0 @ [RemoveAll d])) \<and>
    spawns (events_of (Check sample_Env sample_World ''{}'' closed_Runner)) = [] \<and>
    terminations (events_of (Check sample_Env sample_World ''{}'' closed_Runner)) = [] \<and>
    spawns (events_of (Discover sample_Env sample_World ''{}'' time_Minute closed_Runner)) = [] \<and>
    terminations (events_of (Discover sample_Env sample_World ''{}'' time_Minute closed_Runner))
      = []"
    by (rule operations_after_Close [OF invoked])
qed

text \<open>
  C2. Close on a runner that has never started a process: the runner is marked closed
  and the container stop is started, then the call panics on \<^verbatim>\<open>r.command.Process\<close>,
  because \<^verbatim>\<open>r.command\<close> is nil. The caller of \<^verbatim>\<open>NewRunner(...).Close()\<close> crashes and
  no process handle is killed.
\<close>

theorem Close_created_Runner_panics:
  "Close w (NewRunner uuid dockerImage imageVersion ident) =
     (Panic, (NewRunner uuid dockerImage imageVersion ident)\<lparr>closed := True\<rparr>,
      [DockerStop (identifier (NewRunner uuid dockerImage imageVersion ident))])"
  by (simp add: Close_def terminated_def NewRunner_def)

text \<open>
  C3, as stated, fails: the connector reports the status SUCCEEDED and then exits with
  a non-zero status. Check has observed SUCCEEDED and returns an error, because the
  error of \<^verbatim>\<open>r.command.Wait()\<close> comes first.
\<close>

theorem Check_succeeded_counterexample:
  "map_option Status (observed_status sample_Env exit1_World) = Some ''SUCCEEDED'' \<and>
   result_of (Check sample_Env exit1_World ''{}'' sample_Runner) =
     Ret (Some (ErrorString ''Error executing airbyte check: exit status 1'')) \<and>
   result_of (Check sample_Env exit1_World ''{}'' sample_Runner) \<noteq> Ret None"
proof -
  have "map_option Status (observed_status sample_Env exit1_World) = Some ''SUCCEEDED''"
    by (simp add: observed_status_def check_parser_def exit1_World_sel sample_Row_def)
  moreover have "result_of (Check sample_Env exit1_World ''{}'' sample_Runner) =
     Ret (Some (ErrorString ''Error executing airbyte check: exit status 1''))"
    by (simp add: Check_def exit1_saveConfig run_unfold exit1_World_sel sample_Env_sel
        sample_Runner_sel sample_BuildMsg_def)
  ultimately show ?thesis by simp
qed

text \<open>
  C3, amended. Check returns nil only if the parser has kept a CONNECTION_STATUS row
  with status SUCCEEDED. When the run of Check completes without error and the parser
  has kept a CONNECTION_STATUS row, Check returns nil if and only if its status is
  SUCCEEDED; for the status FAILED it returns an error whose text is exactly the
  connector's message; for any other status it returns an error whose text names the
  status and the message.
\<close>

theorem Check_status_of_clean_run:
  "(result_of (Check env w cfg r) = Ret None \<longrightarrow>
      map_option Status (observed_status env w) = Some ''SUCCEEDED'') \<and>
   (check_run_clean env w cfg r \<and> observed_status env w = Some cs \<longrightarrow>
      (result_of (Check env w cfg r) = Ret None \<longleftrightarrow> Status cs = ''SUCCEEDED'') \<and>
      result_of (Check env w cfg r) =
        (if Status cs = ''SUCCEEDED'' then Ret None
         else if Status cs = ''FAILED'' then Ret (Some (ErrorString (Message cs)))
         else Ret (Some (ErrorString
                (''unknown airbyte connection status ['' @ Status cs @ '']: '' @ Message cs)))) \<and>
      Error env (ErrorString (Message cs)) = Message cs)"
proof (intro conjI impI)
  assume nil: "result_of (Check env w cfg r) = Ret None"
  obtain x r' ev where c: "Check env w cfg r = (x, r', ev)" by (metis prod_cases3)
  with nil have x: "x = Ret None" by simp
  from saveConfig_cases [of env w cfg]
  show "map_option Status (observed_status env w) = Some ''SUCCEEDED''"
  proof (elim disjE exE)
    fix err ev0
    assume "saveConfig env w cfg = (Inl err, ev0)"
    with c x show ?thesis by (simp add: Check_def)
  next
    fix d f ev0
    assume sc: "saveConfig env w cfg = (Inr (d, f), ev0)"
    obtain res p' e r1 ev1 where
      run: "run env w (sync_handler w) (check_parser env) time_Minute (Check_args env r f) r
              = (res, p', e, r1, ev1)"
      by (metis prod_cases5)
    from c x sc run have res: "res = Ret None" and st: "check_status p' = Ret None"
      by (auto simp: Check_def check_parser_def split: outcome.splits option.splits if_splits)
    from run res have "p' = snd (SyncParse w (check_parser env))"
      by (simp add: run_returns_nil)
    with check_status_nil [OF st] show ?thesis
      by (auto simp: observed_status_def)
  qed
next
  assume a: "check_run_clean env w cfg r \<and> observed_status env w = Some cs"
  then obtain d f ev0 where sc: "saveConfig env w cfg = (Inr (d, f), ev0)"
    using saveConfig_cases [of env w cfg] by (auto simp: check_run_clean_def)
  from a obtain r1 ev1 where
    run: "run env w (sync_handler w) (check_parser env) time_Minute (Check_args env r f) r
            = (Ret None, snd (SyncParse w (check_parser env)), Stderr w, r1, ev1)"
    using run_clean [of r env w "check_parser env" time_Minute "Check_args env r f"]
    by (auto simp: check_run_clean_def)
  from a have st: "check_status (snd (SyncParse w (check_parser env))) =
        (if Status cs = ''SUCCEEDED'' then Ret None
         else if Status cs = ''FAILED'' then Ret (Some (ErrorString (Message cs)))
         else Ret (Some (ErrorString
                (''unknown airbyte connection status ['' @ Status cs @ '']: '' @ Message cs))))"
    by (auto simp: observed_status_def check_status_def connectionStatusSucceed_def
        connectionStatusFailed_def split: option.splits)
  from sc run st show res: "result_of (Check env w cfg r) =
        (if Status cs = ''SUCCEEDED'' then Ret None
         else if Status cs = ''FAILED'' then Ret (Some (ErrorString (Message cs)))
         else Ret (Some (ErrorString
                (''unknown airbyte connection status ['' @ Status cs @ '']: '' @ Message cs))))"
    by (simp add: Check_def check_parser_def)
  then show "result_of (Check env w cfg r) = Ret None \<longleftrightarrow> Status cs = ''SUCCEEDED''"
    by simp
  show "Error env (ErrorString (Message cs)) = Message cs" by simp
qed

theorem Check_status_of_clean_run_witness:
  "(result_of (Check sample_Env sample_World ''{}'' sample_Runner) = Ret None \<and>
    map_option Status (observed_status sample_Env sample_World) = Some ''SUCCEEDED'') \<and>
   (check_run_clean sample_Env failed_World ''{}'' sample_Runner \<and>
    observed_status sample_Env failed_World = Some \<lparr>Status = ''FAILED'', Message = ''bad creds''\<rparr> \<and>
    result_of (Check sample_Env failed_World ''{}'' sample_Runner)
      = Ret (Some (ErrorString ''bad creds'')) \<and>
    Error sample_Env (ErrorString ''bad creds'') = ''bad creds'')"
proof -
  have nil: "result_of (Check sample_Env sample_World ''{}'' sample_Runner) = Ret None"
    by (simp add: sample_Check)
  have clean: "check_run_clean sample_Env failed_World ''{}'' sample_Runner"
    by (simp add: check_run_clean_def failed_saveConfig failed_World_sel sample_Env_sel
        sample_Runner_sel check_parser_def)
  have seen: "observed_status sample_Env failed_World
                = Some \<lparr>Status = ''FAILED'', Message = ''bad creds''\<rparr>"
    by (simp add: observed_status_def check_parser_def failed_World_sel sample_Row_def)
  from Check_status_of_clean_run
         [of sample_Env sample_World "''{}''" sample_Runner "\<lparr>Status = ''FAILED'', Message = ''bad creds''\<rparr>"]
       nil
  have one: "map_option Status (observed_status sample_Env sample_World) = Some ''SUCCEEDED''"
    by blast
  from Check_status_of_clean_run
         [of sample_Env failed_World "''{}''" sample_Runner "\<lparr>Status = ''FAILED'', Message = ''bad creds''\<rparr>"]
       clean seen
  have two: "result_of (Check sample_Env failed_World ''{}'' sample_Runner)
      = Ret (Some (ErrorString ''bad creds''))"
    by simp
  from nil one clean seen two show ?thesis by simp
qed

text \<open>
  C4. A runner executes at most one invocation. When an operation has reached the
  spawn stage (it started the connector process), the runner is closed when the
  operation is over, whatever the collaborators answered and also when the operation
  panicked; from then on, after any further operations, every operation fails, starts
  no process and performs no termination action. Any sequence of operations on any
  runner starts at most one process.
\<close>

theorem one_invocation_per_Runner:
  assumes "spawns (events_of (exec_op env w op r)) \<noteq> []"
  shows "closed (runner_of (exec_op env w op r)) \<and>
         fails (result_of (exec_op env w' op'
                  (fst (exec_ops env steps (runner_of (exec_op env w op r)))))) \<and>
         spawns (events_of (exec_op env w' op'
                  (fst (exec_ops env steps (runner_of (exec_op env w op r)))))) = [] \<and>
         terminations (events_of (exec_op env w' op'
                  (fst (exec_ops env steps (runner_of (exec_op env w op r)))))) = [] \<and>
         length (spawns (snd (exec_ops env any_steps any_runner))) \<le> 1"
proof -
  obtain x r1 ev1 where one: "exec_op env w op r = (x, r1, ev1)" by (metis prod_cases3)
  obtain r2 ev2 where rest: "exec_ops env steps r1 = (r2, ev2)" by (cases "exec_ops env steps r1")
  obtain y r3 ev3 where later: "exec_op env w' op' r2 = (y, r3, ev3)" by (metis prod_cases3)
  from assms one exec_op_spawns [OF one] have c1: "closed r1" by auto
  from exec_ops_closed [OF c1 rest] have "r2 = r1" by simp
  with c1 have c2: "closed r2" by simp
  have le: "length (spawns (snd (exec_ops env any_steps any_runner))) \<le> 1"
    using exec_ops_spawns [of env any_steps any_runner] by (metis prod.collapse)
  from exec_op_closed [OF c2 later] c1 le show ?thesis
    by (simp add: one rest later)
qed

theorem one_invocation_per_Runner_witness:
  "spawns (events_of (exec_op sample_Env sample_World OpSpec sample_Runner)) \<noteq> [] \<and>
   (closed (runner_of (exec_op sample_Env sample_World OpSpec sample_Runner)) \<and>
    fails (result_of (exec_op sample_Env sample_World (OpRead ''task-42'' ''src'' '''')
             (fst (exec_ops sample_Env [(sample_World, OpClose), (sample_World, OpCheck ''{}'')]
                (runner_of (exec_op sample_Env sample_World OpSpec sample_Runner)))))) \<and>
    spawns (events_of (exec_op sample_Env sample_World (OpRead ''task-42'' ''src'' '''')
             (fst (exec_ops sample_Env [(sample_World, OpClose), (sample_World, OpCheck ''{}'')]
                (runner_of (exec_op sample_Env sample_World OpSpec sample_Runner)))))) = [] \<and>
    terminations (events_of (exec_op sample_Env sample_World (OpRead ''task-42'' ''src'' '''')
             (fst (exec_ops sample_Env [(sample_World, OpClose), (sample_World, OpCheck ''{}'')]
                (runner_of (exec_op sample_Env sample_World OpSpec sample_Runner)))))) = [] \<and>
    length (spawns (snd (exec_ops sample_Env
              [(sample_World, OpSpec), (sample_World, OpCheck ''{}'')] sample_Runner))) \<le> 1)"
proof
  show spawned: "spawns (events_of (exec_op sample_Env sample_World OpSpec sample_Runner)) \<noteq> []"
    by (simp add: sample_Spec)
  show "closed (runner_of (exec_op sample_Env sample_World OpSpec sample_Runner)) \<and>
    fails (result_of (exec_op sample_Env sample_World (OpRead ''task-42'' ''src'' '''')
             (fst (exec_ops sample_Env [(sample_World, OpClose), (sample_World, OpCheck ''{}'')]
                (runner_of (exec_op sample_Env sample_World OpSpec sample_Runner)))))) \<and>
    spawns (events_of (exec_op sample_Env sample_World (OpRead ''task-42'' ''src'' '''')
             (fst (exec_ops sample_Env [(sample_World, OpClose), (sample_World, OpCheck ''{}'')]
                (runner_of (exec_op sample_Env sample_World OpSpec sample_Runner)))))) = [] \<and>
    terminations (events_of (exec_op sample_Env sample_World (OpRead ''task-42'' ''src'' '''')
             (fst (exec_ops sample_Env [(sample_World, OpClose), (sample_World, OpCheck ''{}'')]
                (runner_of (exec_op sample_Env sample_World OpSpec sample_Runner)))))) = [] \<and>
    length (spawns (snd (exec_ops sample_Env
              [(sample_World, OpSpec), (sample_World, OpCheck ''{}'')] sample_Runner))) \<le> 1"
    by (rule one_invocation_per_Runner [OF spawned])
qed

text \<open>
  C5, as stated, fails for Check (and for Discover, which is written the same way): the
  configuration is written before the image is looked up. When writing it fails, Check
  returns that error and not NotReady; when it succeeds, Check returns NotReady and
  removes the directory it has written.
\<close>

theorem Check_not_pulled_counterexample:
  "\<not> IsImagePulled sample_Env (AddAirbytePrefix sample_Env (DockerImage unpulled_Runner))
        (Version unpulled_Runner) \<and>
   result_of (Check sample_Env nodir_World ''{}'' unpulled_Runner) =
     Ret (Some (ErrorString ''Error creating airbyte generated config dir: permission denied'')) \<and>
   result_of (Check sample_Env nodir_World ''{}'' unpulled_Runner) \<noteq> Ret (Some ErrNotReady) \<and>
   Check sample_Env sample_World ''{}'' unpulled_Runner =
     (Ret (Some ErrNotReady), unpulled_Runner,
      [EnsureDir ''/data/airbyte/d1'', WriteJSON ''/data/airbyte/d1/f1.json'',
       RemoveAll ''/data/airbyte/d1''])"
proof -
  have np: "\<not> IsImagePulled sample_Env (AddAirbytePrefix sample_Env (DockerImage unpulled_Runner))
        (Version unpulled_Runner)"
    by (simp add: sample_Env_sel unpulled_Runner_sel)
  have nc: "\<not> closed unpulled_Runner"
    by (simp add: unpulled_Runner_sel)
  have "result_of (Check sample_Env nodir_World ''{}'' unpulled_Runner) =
     Ret (Some (ErrorString ''Error creating airbyte generated config dir: permission denied''))"
    by (simp add: Check_def nodir_saveConfig)
  moreover have "Check sample_Env sample_World ''{}'' unpulled_Runner =
     (Ret (Some ErrNotReady), unpulled_Runner,
      [EnsureDir ''/data/airbyte/d1'', WriteJSON ''/data/airbyte/d1/f1.json'',
       RemoveAll ''/data/airbyte/d1''])"
    by (simp add: Check_def sample_saveConfig run_not_pulled [OF nc np])
  ultimately show ?thesis using np by simp
qed

text \<open>
  C5, amended. On a runner that is not closed, when the image is reported as not
  pulled, no operation starts a process or performs a termination action, and the
  runner stays as it is. Spec and Read return the NotReady condition itself and do
  nothing else. Check and Discover first write the configuration: when that fails they
  return its error; otherwise they return the NotReady condition itself and remove the
  directory they have written.
\<close>

theorem not_pulled_returns_NotReady:
  assumes "\<not> closed r"
    and "\<not> IsImagePulled env (AddAirbytePrefix env (DockerImage r)) (Version r)"
  shows "Spec env w r = (Ret (None, Some ErrNotReady), r, []) \<and>
         Read env w taskID sourceID statePath r = (Ret (Some ErrNotReady), r, []) \<and>
         Check env w cfg r =
           (case saveConfig env w cfg of
              (Inl err, ev0) \<Rightarrow> (Ret (Some err), r, ev0)
            | (Inr (d, f), ev0) \<Rightarrow> (Ret (Some ErrNotReady), r, ev0 @ [RemoveAll d])) \<and>
         Discover env w cfg t r =
           (case saveConfig env w cfg of
              (Inl err, ev0) \<Rightarrow> (Ret (None, Some err), r, ev0)
            | (Inr (d, f), ev0) \<Rightarrow> (Ret (None, Some ErrNotReady), r, ev0 @ [RemoveAll d])) \<and>
         spawns (events_of (Check env w cfg r)) = [] \<and>
         terminations (events_of (Check env w cfg r)) = [] \<and>
         spawns (events_of (Discover env w cfg t r)) = [] \<and>
         terminations (events_of (Discover env w cfg t r)) = []"
proof -
  note np = run_not_pulled [OF assms]
  have check: "Check env w cfg r =
           (case saveConfig env w cfg of
              (Inl err, ev0) \<Rightarrow> (Ret (Some err), r, ev0)
            | (Inr (d, f), ev0) \<Rightarrow> (Ret (Some ErrNotReady), r, ev0 @ [RemoveAll d]))"
    by (simp add: Check_def np split: prod.splits sum.splits)
  have discover: "Discover env w cfg t r =
           (case saveConfig env w cfg of
              (Inl err, ev0) \<Rightarrow> (Ret (None, Some err), r, ev0)
            | (Inr (d, f), ev0) \<Rightarrow> (Ret (None, Some ErrNotReady), r, ev0 @ [RemoveAll d]))"
    by (simp add: Discover_def np split: prod.splits sum.splits)
  have ev: "spawns (events_of (Check env w cfg r)) = []"
       "terminations (events_of (Check env w cfg r)) = []"
       "spawns (events_of (Discover env w cfg t r)) = []"
       "terminations (events_of (Discover env w cfg t r)) = []"
    using saveConfig_events [of env w cfg]
    by (auto simp: check discover split: prod.splits sum.splits)
  have "Spec env w r = (Ret (None, Some ErrNotReady), r, [])"
    by (simp add: Spec_def np)
  moreover have "Read env w taskID sourceID statePath r = (Ret (Some ErrNotReady), r, [])"
    by (simp add: Read_def np)
  ultimately show ?thesis using check discover ev by blast
qed

theorem not_pulled_returns_NotReady_witness:
  "(\<not> closed unpulled_Runner \<and>
    \<not> IsImagePulled sample_Env (AddAirbytePrefix sample_Env (DockerImage unpulled_Runner))
         (Version unpulled_Runner)) \<and>
   (Spec sample_Env sample_World unpulled_Runner = (Ret (None, Some ErrNotReady), unpulled_Runner, []) \<and>
    Read sample_Env sample_World ''task-42'' ''src'' '''' unpulled_Runner
      = (Ret (Some ErrNotReady), unpulled_Runner, []) \<and>
    Check sample_Env sample_World ''{}'' unpulled_Runner =
      (case saveConfig sample_Env sample_World ''{}'' of
         (Inl err, ev0) \<Rightarrow> (Ret (Some err), unpulled_Runner, ev0)
       | (Inr (d, f), ev0) \<Rightarrow> (Ret (Some ErrNotReady), unpulled_Runner, ev0 @ [RemoveAll d])) \<and>
    Discover sample_Env sample_World ''{}'' time_Minute unpulled_Runner =
      (case saveConfig sample_Env sample_World ''{}'' of
         (Inl err, ev0) \<Rightarrow> (Ret (None, Some err), unpulled_Runner, ev0)
       | (Inr (d, f), ev0) \<Rightarrow>
           (Ret (None, Some ErrNotReady), unpulled_Runner, ev0 @ [RemoveAll d])) \<and>
    spawns (events_of (Check sample_Env sample_World ''{}'' unpulled_Runner)) = [] \<and>
    terminations (events_of (Check sample_Env sample_World ''{}'' unpulled_Runner)) = [] \<and>
    spawns (events_of (Discover sample_Env sample_World ''{}'' time_Minute unpulled_Runner)) = [] \<and>
    terminations (events_of (Discover sample_Env sample_World ''{}'' time_Minute unpulled_Runner))
      = [])"
proof
  have nc: "\<not> closed unpulled_Runner"
    by (simp add: unpulled_Runner_sel)
  have np: "\<not> IsImagePulled sample_Env (AddAirbytePrefix sample_Env (DockerImage unpulled_Runner))
         (Version unpulled_Runner)"
    by (simp add: sample_Env_sel unpulled_Runner_sel)
  from nc np show "\<not> closed unpulled_Runner \<and>
    \<not> IsImagePulled sample_Env (AddAirbytePrefix sample_Env (DockerImage unpulled_Runner))
         (Version unpulled_Runner)" by (rule conjI)
  show "Spec sample_Env sample_World unpulled_Runner = (Ret (None, Some ErrNotReady), unpulled_Runner, []) \<and>
    Read sample_Env sample_World ''task-42'' ''src'' '''' unpulled_Runner
      = (Ret (Some ErrNotReady), unpulled_Runner, []) \<and>
    Check sample_Env sample_World ''{}'' unpulled_Runner =
      (case saveConfig sample_Env sample_World ''{}'' of
         (Inl err, ev0) \<Rightarrow> (Ret (Some err), unpulled_Runner, ev0)
       | (Inr (d, f), ev0) \<Rightarrow> (Ret (Some ErrNotReady), unpulled_Runner, ev0 @ [RemoveAll d])) \<and>
    Discover sample_Env sample_World ''{}'' time_Minute unpulled_Runner =
      (case saveConfig sample_Env sample_World ''{}'' of
         (Inl err, ev0) \<Rightarrow> (Ret (None, Some err), unpulled_Runner, ev0)
       | (Inr (d, f), ev0) \<Rightarrow>
           (Ret (None, Some ErrNotReady), unpulled_Runner, ev0 @ [RemoveAll d])) \<and>
    spawns (events_of (Check sample_Env sample_World ''{}'' unpulled_Runner)) = [] \<and>
    terminations (events_of (Check sample_Env sample_World ''{}'' unpulled_Runner)) = [] \<and>
    spawns (events_of (Discover sample_Env sample_World ''{}'' time_Minute unpulled_Runner)) = [] \<and>
    terminations (events_of (Discover sample_Env sample_World ''{}'' time_Minute unpulled_Runner))
      = []"
    by (rule not_pulled_returns_NotReady [OF nc np])
qed

text \<open>
  C6. Read names the container after the task (\<^verbatim>\<open>taskCloser.TaskID()\<close>), not after the
  runner: on the sample runner \<open>runner-1\<close>, read for the task \<open>task-42\<close> starts a container
  named \<open>task-42\<close>, and the termination that follows stops the container \<open>runner-1\<close>.
\<close>

theorem Read_names_container_after_task:
  "identifier sample_Runner = ''runner-1'' \<and>
   events_of (Read sample_Env sample_World ''task-42'' ''src'' '''' sample_Runner) =
     [CmdStart ''docker''
        [''run'', ''--rm'', ''-i'', ''--name'', ''task-42'', ''-v'',
         ''jitsu_workspace:/tmp/airbyte'', ''airbyte/source-github:0.1.0'', ''read'',
         ''--config'', ''/tmp/airbyte/src/source-github/config.json'',
         ''--catalog'', ''/tmp/airbyte/src/source-github/catalog.json''],
      DockerStop ''runner-1'', ProcessKill]"
  by (simp add: Read_def Read_args_def read_handler_def run_unfold sample_sel sample_Join_def)

text \<open>
  C7. The arguments of Read: after the nine leading arguments come \<open>--config\<close> and
  \<open>--catalog\<close>, each with a path joined from the volume alias, the source id, the image
  name and a fixed file name, and then \<open>--state\<close> with its path exactly when
  \<open>statePath\<close> is not empty. The two paths are the same for every runner with that
  image name and for every task, version, identifier and state path. On a runner that
  is not closed and whose image is pulled, Read starts the docker command with exactly
  these arguments, as the first thing it does, and starts no other process; in no case
  does it start a process with other arguments.
\<close>

theorem Read_args_convention:
  "take 9 (Read_args env r taskID sourceID statePath) =
     [''run'', ''--rm'', ''-i'', ''--name'', taskID, ''-v'', volume_ref env, image_ref env r,
      ''read''] \<and>
   drop 9 (Read_args env r taskID sourceID statePath) =
     [''--config'', path_Join env [VolumeAlias env, sourceID, DockerImage r, ConfigFileName env],
      ''--catalog'', path_Join env [VolumeAlias env, sourceID, DockerImage r, CatalogFileName env]]
     @ (if statePath = '''' then []
        else [''--state'',
              path_Join env [VolumeAlias env, sourceID, DockerImage r, StateFileName env]]) \<and>
   (length (Read_args env r taskID sourceID statePath) = 15 \<longleftrightarrow> statePath \<noteq> '''') \<and>
   (length (Read_args env r taskID sourceID statePath) = 13 \<longleftrightarrow> statePath = '''') \<and>
   (DockerImage r' = DockerImage r \<longrightarrow>
      take 4 (drop 9 (Read_args env r' taskID' sourceID statePath'))
        = take 4 (drop 9 (Read_args env r taskID sourceID statePath))) \<and>
   (spawns (events_of (Read env w taskID sourceID statePath r)) = [] \<or>
    spawns (events_of (Read env w taskID sourceID statePath r)) =
      [CmdStart (DockerCommand env) (Read_args env r taskID sourceID statePath)]) \<and>
   (\<not> closed r \<and> IsImagePulled env (AddAirbytePrefix env (DockerImage r)) (Version r) \<longrightarrow>
      spawns (events_of (Read env w taskID sourceID statePath r)) =
        [CmdStart (DockerCommand env) (Read_args env r taskID sourceID statePath)] \<and>
      (\<exists>rest. events_of (Read env w taskID sourceID statePath r) =
         CmdStart (DockerCommand env) (Read_args env r taskID sourceID statePath) # rest))"
proof -
  obtain x r1 ev where rd: "Read env w taskID sourceID statePath r = (x, r1, ev)"
    by (metis prod_cases3)
  from Read_summary [OF rd]
  have "spawns ev = [] \<or>
        spawns ev = [CmdStart (DockerCommand env) (Read_args env r taskID sourceID statePath)]"
    by auto
  moreover have "\<not> closed r \<and> IsImagePulled env (AddAirbytePrefix env (DockerImage r)) (Version r)
      \<longrightarrow> spawns ev = [CmdStart (DockerCommand env) (Read_args env r taskID sourceID statePath)]
        \<and> (\<exists>rest. ev = CmdStart (DockerCommand env)
                          (Read_args env r taskID sourceID statePath) # rest)"
    using Read_spawns_its_args [of r env w taskID sourceID statePath] rd by auto
  ultimately show ?thesis
    by (simp add: Read_args_def Let_def rd)
qed

theorem Read_args_convention_witness:
  "DockerImage (sample_Runner\<lparr>Version := ''0.2.0'', identifier := ''runner-9''\<rparr>)
     = DockerImage sample_Runner \<and>
   (\<not> closed sample_Runner \<and>
    IsImagePulled sample_Env (AddAirbytePrefix sample_Env (DockerImage sample_Runner))
      (Version sample_Runner)) \<and>
   take 4 (drop 9 (Read_args sample_Env (sample_Runner\<lparr>Version := ''0.2.0'', identifier := ''runner-9''\<rparr>)
                     ''task-7'' ''src'' ''old-state''))
     = take 4 (drop 9 (Read_args sample_Env sample_Runner ''task-42'' ''src'' '''')) \<and>
   drop 9 (Read_args sample_Env sample_Runner ''task-42'' ''src'' ''s'') =
     [''--config'', ''/tmp/airbyte/src/source-github/config.json'',
      ''--catalog'', ''/tmp/airbyte/src/source-github/catalog.json'',
      ''--state'', ''/tmp/airbyte/src/source-github/state.json''] \<and>
   spawns (events_of (Read sample_Env sample_World ''task-42'' ''src'' ''s'' sample_Runner)) =
     [CmdStart ''docker''
        [''run'', ''--rm'', ''-i'', ''--name'', ''task-42'', ''-v'',
         ''jitsu_workspace:/tmp/airbyte'', ''airbyte/source-github:0.1.0'', ''read'',
         ''--config'', ''/tmp/airbyte/src/source-github/config.json'',
         ''--catalog'', ''/tmp/airbyte/src/source-github/catalog.json'',
         ''--state'', ''/tmp/airbyte/src/source-github/state.json'']] \<and>
   spawns (events_of (Read sample_Env sample_World ''task-42'' ''src'' '''' sample_Runner)) =
     [CmdStart ''docker''
        [''run'', ''--rm'', ''-i'', ''--name'', ''task-42'', ''-v'',
         ''jitsu_workspace:/tmp/airbyte'', ''airbyte/source-github:0.1.0'', ''read'',
         ''--config'', ''/tmp/airbyte/src/source-github/config.json'',
         ''--catalog'', ''/tmp/airbyte/src/source-github/catalog.json'']]"
proof -
  have same: "DockerImage (sample_Runner\<lparr>Version := ''0.2.0'', identifier := ''runner-9''\<rparr>)
     = DockerImage sample_Runner"
    by simp
  have ready: "\<not> closed sample_Runner \<and>
    IsImagePulled sample_Env (AddAirbytePrefix sample_Env (DockerImage sample_Runner))
      (Version sample_Runner)"
    by (simp add: sample_Env_sel sample_Runner_sel)
  have args_s: "Read_args sample_Env sample_Runner ''task-42'' ''src'' ''s'' =
        [''run'', ''--rm'', ''-i'', ''--name'', ''task-42'', ''-v'',
         ''jitsu_workspace:/tmp/airbyte'', ''airbyte/source-github:0.1.0'', ''read'',
         ''--config'', ''/tmp/airbyte/src/source-github/config.json'',
         ''--catalog'', ''/tmp/airbyte/src/source-github/catalog.json'',
         ''--state'', ''/tmp/airbyte/src/source-github/state.json'']"
    by (simp add: Read_args_def image_ref_def volume_ref_def sample_Env_sel sample_Runner_sel
        sample_Join_def)
  have args_e: "Read_args sample_Env sample_Runner ''task-42'' ''src'' '''' =
        [''run'', ''--rm'', ''-i'', ''--name'', ''task-42'', ''-v'',
         ''jitsu_workspace:/tmp/airbyte'', ''airbyte/source-github:0.1.0'', ''read'',
         ''--config'', ''/tmp/airbyte/src/source-github/config.json'',
         ''--catalog'', ''/tmp/airbyte/src/source-github/catalog.json'']"
    by (simp add: Read_args_def image_ref_def volume_ref_def sample_Env_sel sample_Runner_sel
        sample_Join_def)
  have docker: "DockerCommand sample_Env = ''docker''"
    by (simp add: sample_Env_sel)
  from Read_args_convention
         [of sample_Env sample_Runner "''task-42''" "''src''" "''''"
             "sample_Runner\<lparr>Version := ''0.2.0'', identifier := ''runner-9''\<rparr>"
             "''task-7''" "''old-state''" sample_World]
       same ready
  have one: "take 4 (drop 9 (Read_args sample_Env (sample_Runner\<lparr>Version := ''0.2.0'', identifier := ''runner-9''\<rparr>)
                     ''task-7'' ''src'' ''old-state''))
     = take 4 (drop 9 (Read_args sample_Env sample_Runner ''task-42'' ''src'' ''''))"
    and three: "spawns (events_of (Read sample_Env sample_World ''task-42'' ''src'' ''''
                  sample_Runner)) =
      [CmdStart (DockerCommand sample_Env)
         (Read_args sample_Env sample_Runner ''task-42'' ''src'' '''')]"
    by blast+
  from Read_args_convention
         [of sample_Env sample_Runner "''task-42''" "''src''" "''s''" sample_Runner
             "''task-42''" "''s''" sample_World]
       ready
  have two: "spawns (events_of (Read sample_Env sample_World ''task-42'' ''src'' ''s''
                  sample_Runner)) =
      [CmdStart (DockerCommand sample_Env)
         (Read_args sample_Env sample_Runner ''task-42'' ''src'' ''s'')]"
    by blast
  have four: "drop 9 (Read_args sample_Env sample_Runner ''task-42'' ''src'' ''s'') =
     [''--config'', ''/tmp/airbyte/src/source-github/config.json'',
      ''--catalog'', ''/tmp/airbyte/src/source-github/catalog.json'',
      ''--state'', ''/tmp/airbyte/src/source-github/state.json'']"
    by (simp add: args_s)
  from same ready one two three four show ?thesis
    unfolding docker args_s args_e by blast
qed

text \<open>
  C8. When the directory cannot be created or the configuration cannot be written,
  \<^verbatim>\<open>saveConfig\<close> returns an error (the text of the failed step with the cause), Check
  and Discover return that error, the runner is left as it is, and nothing happens
  beyond the attempt to write: no process is started and no termination action is
  performed.
\<close>

theorem materialization_failure_aborts:
  assumes "LoggingEnsureDir w (config_dir env w) \<noteq> None
           \<or> ParseJSONAsFile w (config_file env w) cfg \<noteq> None"
  shows "\<exists>err. fst (saveConfig env w cfg) = Inl err \<and>
           err = (case LoggingEnsureDir w (config_dir env w) of
                    Some e \<Rightarrow> ErrorString
                       (''Error creating airbyte generated config dir: '' @ Error env e)
                  | None \<Rightarrow> ErrorString
                       (''Error writing airbyte config ['' @ fmt_v w cfg @ '']: ''
                          @ Error env (the (ParseJSONAsFile w (config_file env w) cfg)))) \<and>
           Check env w cfg r = (Ret (Some err), r, snd (saveConfig env w cfg)) \<and>
           Discover env w cfg t r = (Ret (None, Some err), r, snd (saveConfig env w cfg)) \<and>
           spawns (snd (saveConfig env w cfg)) = [] \<and>
           terminations (snd (saveConfig env w cfg)) = []"
proof -
  obtain err where err: "fst (saveConfig env w cfg) = Inl err"
    and shape: "err = (case LoggingEnsureDir w (config_dir env w) of
                    Some e \<Rightarrow> ErrorString
                       (''Error creating airbyte generated config dir: '' @ Error env e)
                  | None \<Rightarrow> ErrorString
                       (''Error writing airbyte config ['' @ fmt_v w cfg @ '']: ''
                          @ Error env (the (ParseJSONAsFile w (config_file env w) cfg))))"
    using saveConfig_fails [OF assms] by blast
  then obtain ev0 where sc: "saveConfig env w cfg = (Inl err, ev0)"
    by (cases "saveConfig env w cfg") simp
  have "Check env w cfg r = (Ret (Some err), r, snd (saveConfig env w cfg))"
    by (simp add: Check_def sc)
  moreover have "Discover env w cfg t r = (Ret (None, Some err), r, snd (saveConfig env w cfg))"
    by (simp add: Discover_def sc)
  ultimately show ?thesis
    using err shape saveConfig_events [of env w cfg] by blast
qed

theorem materialization_failure_aborts_witness:
  "LoggingEnsureDir nodir_World (config_dir sample_Env nodir_World)
     = Some (ErrorString ''permission denied'') \<and>
   Check sample_Env nodir_World ''{}'' sample_Runner =
     (Ret (Some (ErrorString ''Error creating airbyte generated config dir: permission denied'')),
      sample_Runner, [EnsureDir ''/data/airbyte/d1'']) \<and>
   Discover sample_Env nodir_World ''{}'' time_Minute sample_Runner =
     (Ret (None, Some (ErrorString
        ''Error creating airbyte generated config dir: permission denied'')),
      sample_Runner, [EnsureDir ''/data/airbyte/d1''])"
proof -
  have fails: "LoggingEnsureDir nodir_World (config_dir sample_Env nodir_World) \<noteq> None
    \<or> ParseJSONAsFile nodir_World (config_file sample_Env nodir_World) ''{}'' \<noteq> None"
    by (simp add: nodir_World_sel)
  have refused: "LoggingEnsureDir nodir_World (config_dir sample_Env nodir_World)
     = Some (ErrorString ''permission denied'')"
    by (simp add: nodir_World_sel)
  from materialization_failure_aborts [OF fails, of sample_Runner time_Minute]
  have "Check sample_Env nodir_World ''{}'' sample_Runner =
     (Ret (Some (ErrorString ''Error creating airbyte generated config dir: permission denied'')),
      sample_Runner, [EnsureDir ''/data/airbyte/d1'']) \<and>
   Discover sample_Env nodir_World ''{}'' time_Minute sample_Runner =
     (Ret (None, Some (ErrorString
        ''Error creating airbyte generated config dir: permission denied'')),
      sample_Runner, [EnsureDir ''/data/airbyte/d1''])"
    by (auto simp: nodir_saveConfig)
  with refused show ?thesis by blast
qed

text \<open>
  C9. The watchdog and the caller both pass the guard of Close before either closes
  the channel; the watchdog closes it; the caller's \<^verbatim>\<open>close(r.closed)\<close> then panics.
  The watchdog goes on to stop the container and kill the process: one termination
  action is performed, and one of the two triggers has crashed.
\<close>

theorem Close_race_panics:
  "pc_caller (close_schedule ident killErr
                [Watchdog, Caller, Watchdog, Caller, Watchdog, Watchdog] race_init) = Panicked \<and>
   pc_watchdog (close_schedule ident killErr
                [Watchdog, Caller, Watchdog, Caller, Watchdog, Watchdog] race_init)
     = Returned killErr \<and>
   done_events (close_schedule ident killErr
                [Watchdog, Caller, Watchdog, Caller, Watchdog, Watchdog] race_init)
     = [(Watchdog, DockerStop ident), (Watchdog, ProcessKill)]"
  by (simp add: close_step_def pc_of_def set_pc_def race_init_def)

text \<open>
  C10. Read tests \<open>statePath\<close> for emptiness and never uses its content: two calls that
  differ only in a non-empty state path build the same arguments, in which \<open>--state\<close> is
  followed by the path joined from the volume alias, the source id, the image name and
  the fixed state file name, and they do the same in every world.
\<close>

theorem Read_ignores_statePath_content:
  assumes "statePath \<noteq> ''''" and "statePath' \<noteq> ''''"
  shows "Read_args env r taskID sourceID statePath = Read_args env r taskID sourceID statePath' \<and>
         drop 13 (Read_args env r taskID sourceID statePath) =
           [''--state'',
            path_Join env [VolumeAlias env, sourceID, DockerImage r, StateFileName env]] \<and>
         Read env w taskID sourceID statePath r = Read env w taskID sourceID statePath' r"
  using assms by (simp add: Read_def Read_args_def Let_def)

theorem Read_ignores_statePath_content_witness:
  "(''/data/state.json'' \<noteq> '''' \<and> ''../../etc/passwd'' \<noteq> '''') \<and>
   Read_args sample_Env sample_Runner ''task-42'' ''src'' ''/data/state.json''
     = Read_args sample_Env sample_Runner ''task-42'' ''src'' ''../../etc/passwd'' \<and>
   drop 13 (Read_args sample_Env sample_Runner ''task-42'' ''src'' ''/data/state.json'') =
     [''--state'', ''/tmp/airbyte/src/source-github/state.json''] \<and>
   Read sample_Env sample_World ''task-42'' ''src'' ''/data/state.json'' sample_Runner
     = Read sample_Env sample_World ''task-42'' ''src'' ''../../etc/passwd'' sample_Runner"
proof -
  have a: "''/data/state.json'' \<noteq> ''''" by simp
  have b: "''../../etc/passwd'' \<noteq> ''''" by simp
  have p: "path_Join sample_Env [VolumeAlias sample_Env, ''src'', DockerImage sample_Runner,
             StateFileName sample_Env] = ''/tmp/airbyte/src/source-github/state.json''"
    by (simp add: sample_Env_sel sample_Runner_sel sample_Join_def)
  from Read_ignores_statePath_content [OF a b, of sample_Env sample_Runner "''task-42''" "''src''"
         sample_World]
  show ?thesis
    unfolding p using a b by blast
qed

end
